theory Spec2Isabelle
  imports Complex_Main "HOL-Library.Word" "HOL-Library.AList" "HOL-Library.Multiset"
begin

unbundle bit_operations_syntax

section \<open>JavaScript values used by the service\<close>

text \<open>
  A JavaScript string is a sequence of UTF-16 code units. Where the code only compares,
  stores or hashes a string, the string is given by its UTF-8 bytes, one \<^typ>\<open>char\<close>
  per byte, as a \<^typ>\<open>string\<close>. Where the code reads the code units themselves, which
  is the hexadecimal decoding of a signature, the string is the list of its 16-bit code
  units; \<open>js s\<close> is the JavaScript string of the ASCII characters \<open>s\<close>.
\<close>

type_synonym jschar = "16 word"

type_synonym jsstring = "jschar list"

definition js :: "string \<Rightarrow> jsstring" where
  "js s = map of_char s"

text \<open>
  An optional string argument or header (\<^verbatim>\<open>string | undefined | null\<close>) is an
  optional list. JavaScript's truthiness test \<^verbatim>\<open>if (s)\<close> on such a value
  fails for \<^verbatim>\<open>undefined\<close>, \<^verbatim>\<open>null\<close> and the empty string.
  \<^verbatim>\<open>s || null\<close> keeps a truthy string and turns everything else into \<^verbatim>\<open>null\<close>.
\<close>

definition truthy :: "'a list option \<Rightarrow> bool" where
  "truthy s = (case s of None \<Rightarrow> False | Some v \<Rightarrow> v \<noteq> [])"

definition or_null :: "'a list option \<Rightarrow> 'a list option" where
  "or_null s = (if truthy s then s else None)"

text \<open>Exceptions of the runtime and of the framework, as values.\<close>

datatype js_error =
    RangeError
  | QueryFailedError string
  | ForbiddenException string
  | UnauthorizedException string
  | NotFoundException string

section \<open>Node's \<^verbatim>\<open>Buffer\<close> and \<^verbatim>\<open>crypto\<close>\<close>

text \<open>
  A byte is an \<^typ>\<open>int\<close> in \<open>0..255\<close>; a \<^verbatim>\<open>Buffer\<close> is a list of bytes.
  \<open>bytes s\<close> are the UTF-8 bytes of a string that is hashed as \<^verbatim>\<open>'utf8'\<close>.
\<close>

type_synonym byte = int

definition bytes :: "string \<Rightarrow> byte list" where
  "bytes s = map of_char s"

text \<open>\<^verbatim>\<open>digest('hex')\<close>: two lowercase hexadecimal digits per byte.\<close>

definition hexdigit :: "int \<Rightarrow> char" where
  "hexdigit n = ''0123456789abcdef'' ! nat n"

definition hex_byte :: "byte \<Rightarrow> string" where
  "hex_byte b = [hexdigit (b div 16), hexdigit (b mod 16)]"

definition hex_encode :: "byte list \<Rightarrow> string" where
  "hex_encode bs = concat (map hex_byte bs)"

text \<open>
  \<^verbatim>\<open>Buffer.from(s, 'hex')\<close>. Node decodes pairs of hexadecimal digits, upper or lower
  case, and stops without an error at the first pair that is not two hexadecimal digits;
  a trailing single character is dropped. (Node's documentation:
  \<^verbatim>\<open>Buffer.from('1ag123', 'hex')\<close> is \<^verbatim>\<open><Buffer 1a>\<close>, \<^verbatim>\<open>Buffer.from('1a7', 'hex')\<close> is
  \<^verbatim>\<open><Buffer 1a>\<close>.) The decoder converts each code unit to an unsigned 8-bit value
  before it looks the digit up, so it reads the low byte of the unit only: the unit
  \<^verbatim>\<open>U+0162\<close> is read as \<^verbatim>\<open>0x62\<close>, the digit \<^verbatim>\<open>b\<close>, and \<^verbatim>\<open>U+0131\<close> as
  \<^verbatim>\<open>0x31\<close>, the digit \<^verbatim>\<open>1\<close>.
\<close>

definition unhex :: "jschar \<Rightarrow> int option" where
  "unhex u =
     (if 48 \<le> unat u mod 256 \<and> unat u mod 256 \<le> 57 then Some (int (unat u mod 256) - 48)
      else if 97 \<le> unat u mod 256 \<and> unat u mod 256 \<le> 102 then Some (int (unat u mod 256) - 87)
      else if 65 \<le> unat u mod 256 \<and> unat u mod 256 \<le> 70 then Some (int (unat u mod 256) - 55)
      else None)"

fun Buffer_from_hex :: "jsstring \<Rightarrow> byte list" where
  "Buffer_from_hex (a # b # r) =
     (case unhex a of
        None \<Rightarrow> []
      | Some x \<Rightarrow> (case unhex b of None \<Rightarrow> [] | Some y \<Rightarrow> (x * 16 + y) # Buffer_from_hex r))"
| "Buffer_from_hex _ = []"

text \<open>
  \<^verbatim>\<open>crypto.timingSafeEqual(a, b)\<close> throws a \<^verbatim>\<open>RangeError\<close> when the two buffers differ
  in length and otherwise tells whether they hold the same bytes.
\<close>

definition timingSafeEqual :: "byte list \<Rightarrow> byte list \<Rightarrow> js_error + bool" where
  "timingSafeEqual a b = (if length a \<noteq> length b then Inl RangeError else Inr (a = b))"

subsection \<open>SHA-256 (FIPS 180-4) and HMAC (RFC 2104)\<close>

text \<open>
  \<^verbatim>\<open>crypto.createHmac('sha256', key).update(payload, 'utf8').digest()\<close>. A 32-bit word
  is an \<^typ>\<open>int\<close> in \<open>0..2^32-1\<close>, with the wrap-around written out. The round
  constants and the initial hash value are written in decimal.
\<close>

definition add32 :: "int \<Rightarrow> int \<Rightarrow> int" where
  "add32 a b = (a + b) mod 4294967296"

definition rotr :: "nat \<Rightarrow> int \<Rightarrow> int" where
  "rotr n x = (x div 2 ^ n) OR ((x * 2 ^ (32 - n)) mod 4294967296)"

definition shr :: "nat \<Rightarrow> int \<Rightarrow> int" where
  "shr n x = x div 2 ^ n"

definition ch :: "int \<Rightarrow> int \<Rightarrow> int \<Rightarrow> int" where
  "ch x y z = (x AND y) XOR ((x XOR 4294967295) AND z)"

definition maj :: "int \<Rightarrow> int \<Rightarrow> int \<Rightarrow> int" where
  "maj x y z = (x AND y) XOR (x AND z) XOR (y AND z)"

definition bsig0 :: "int \<Rightarrow> int" where
  "bsig0 x = rotr 2 x XOR rotr 13 x XOR rotr 22 x"

definition bsig1 :: "int \<Rightarrow> int" where
  "bsig1 x = rotr 6 x XOR rotr 11 x XOR rotr 25 x"

definition ssig0 :: "int \<Rightarrow> int" where
  "ssig0 x = rotr 7 x XOR rotr 18 x XOR shr 3 x"

definition ssig1 :: "int \<Rightarrow> int" where
  "ssig1 x = rotr 17 x XOR rotr 19 x XOR shr 10 x"

definition K256 :: "int list" where
  "K256 = [
  1116352408, 1899447441, 3049323471, 3921009573, 961987163, 1508970993, 2453635748, 2870763221,
  3624381080, 310598401, 607225278, 1426881987, 1925078388, 2162078206, 2614888103, 3248222580,
  3835390401, 4022224774, 264347078, 604807628, 770255983, 1249150122, 1555081692, 1996064986,
  2554220882, 2821834349, 2952996808, 3210313671, 3336571891, 3584528711, 113926993, 338241895,
  666307205, 773529912, 1294757372, 1396182291, 1695183700, 1986661051, 2177026350, 2456956037,
  2730485921, 2820302411, 3259730800, 3345764771, 3516065817, 3600352804, 4094571909, 275423344,
  430227734, 506948616, 659060556, 883997877, 958139571, 1322822218, 1537002063, 1747873779,
  1955562222, 2024104815, 2227730452, 2361852424, 2428436474, 2756734187, 3204031479, 3329325298]"

definition H0 :: "int list" where
  "H0 = [1779033703, 3144134277, 1013904242, 2773480762,
         1359893119, 2600822924, 528734635, 1541459225]"

fun be32 :: "byte list \<Rightarrow> int list" where
  "be32 (a # b # c # d # r) = (((a * 256 + b) * 256 + c) * 256 + d) # be32 r"
| "be32 _ = []"

definition bytes_of_u32 :: "int \<Rightarrow> byte list" where
  "bytes_of_u32 w = [w div 16777216, (w div 65536) mod 256, (w div 256) mod 256, w mod 256]"

text \<open>Padding: the byte 128, zeros, and the length in bits as 64 bits, big-endian.\<close>

definition pad :: "byte list \<Rightarrow> byte list" where
  "pad m = m @ [128] @ replicate ((119 - length m mod 64) mod 64) 0
             @ bytes_of_u32 ((8 * int (length m)) div 4294967296)
             @ bytes_of_u32 ((8 * int (length m)) mod 4294967296)"

text \<open>
  The message schedule keeps a window of the last sixteen words: \<open>w ! 0\<close> is
  \<open>W\<^sub>t\<^sub>-\<^sub>1\<^sub>6\<close>, \<open>w ! 14\<close> is \<open>W\<^sub>t\<^sub>-\<^sub>2\<close>.
\<close>

definition sched_step :: "int list \<Rightarrow> int list" where
  "sched_step w =
     w @ [add32 (add32 (add32 (ssig1 (w ! 14)) (w ! 9)) (ssig0 (w ! 1))) (w ! 0)]"

fun schedule :: "nat \<Rightarrow> int list \<Rightarrow> int list" where
  "schedule 0 w = []"
| "schedule (Suc n) w = hd w # schedule n (tl (sched_step w))"

fun round2 :: "int list \<Rightarrow> int \<Rightarrow> int \<Rightarrow> int list" where
  "round2 [a, b, c, d, e, f, g, h] t1 t2 = [add32 t1 t2, a, b, c, add32 d t1, e, f, g]"
| "round2 s _ _ = s"

fun round1 :: "int list \<Rightarrow> int \<times> int \<Rightarrow> int list" where
  "round1 [a, b, c, d, e, f, g, h] (k, w) =
     round2 [a, b, c, d, e, f, g, h]
       (add32 (add32 (add32 (add32 h (bsig1 e)) (ch e f g)) k) w)
       (add32 (bsig0 a) (maj a b c))"
| "round1 s _ = s"

definition compress :: "int list \<Rightarrow> byte list \<Rightarrow> int list" where
  "compress hs blk = map2 add32 hs (foldl round1 hs (zip K256 (schedule 64 (be32 blk))))"

fun blocks :: "nat \<Rightarrow> byte list \<Rightarrow> int list \<Rightarrow> int list" where
  "blocks 0 m hs = hs"
| "blocks (Suc n) m hs = blocks n (drop 64 m) (compress hs (take 64 m))"

definition sha256 :: "byte list \<Rightarrow> byte list" where
  "sha256 m = concat (map bytes_of_u32 (blocks (length (pad m) div 64) (pad m) H0))"

definition hmac_key :: "byte list \<Rightarrow> byte list" where
  "hmac_key key =
     (if length key > 64 then sha256 key @ replicate 32 0
      else key @ replicate (64 - length key) 0)"

definition hmac_sha256 :: "byte list \<Rightarrow> byte list \<Rightarrow> byte list" where
  "hmac_sha256 key msg =
     sha256 (map (\<lambda>b. b XOR 92) (hmac_key key)
             @ sha256 (map (\<lambda>b. b XOR 54) (hmac_key key) @ msg))"

text \<open>Well-formed buffers and hash states, for the lemmas below.\<close>

definition byte_list :: "int list \<Rightarrow> bool" where
  "byte_list bs = list_all (\<lambda>b. 0 \<le> b \<and> b < 256) bs"

definition words8 :: "int list \<Rightarrow> bool" where
  "words8 ws = (length ws = 8 \<and> list_all (\<lambda>w. 0 \<le> w \<and> w < 4294967296) ws)"

section \<open>SignatureService (\<^verbatim>\<open>src/auth/services/signature.service.ts\<close>)\<close>

text \<open>
  The service's \<^verbatim>\<open>webhookSecret\<close> field is the first argument of each method.
\<close>

definition generate :: "string \<Rightarrow> string \<Rightarrow> string" where
  "generate webhookSecret payload =
     hex_encode (hmac_sha256 (bytes webhookSecret) (bytes payload))"

text \<open>The body of the \<^verbatim>\<open>try\<close> block of \<^verbatim>\<open>verify\<close>.\<close>

definition verify_try :: "jsstring \<Rightarrow> string \<Rightarrow> js_error + bool" where
  "verify_try signature expectedSignature =
     (if length (Buffer_from_hex signature) \<noteq> length (Buffer_from_hex (js expectedSignature))
      then Inr False
      else timingSafeEqual (Buffer_from_hex signature) (Buffer_from_hex (js expectedSignature)))"

text \<open>
  \<^verbatim>\<open>verify\<close>: the signature may be \<^verbatim>\<open>undefined\<close> or \<^verbatim>\<open>null\<close> at run time (a
  unit test passes \<^verbatim>\<open>null\<close>, the guard's test for a missing header comes first); an
  error thrown in the \<^verbatim>\<open>try\<close> block is caught and gives \<^verbatim>\<open>false\<close>.
\<close>

definition verify :: "string \<Rightarrow> string \<Rightarrow> jsstring option \<Rightarrow> bool" where
  "verify webhookSecret payload signature =
     (case signature of
        None \<Rightarrow> False
      | Some s \<Rightarrow>
          if s = [] then False
          else (case verify_try s (generate webhookSecret payload) of
                  Inl e \<Rightarrow> False
                | Inr b \<Rightarrow> b))"

section \<open>Requests\<close>

text \<open>
  The part of an Express request the pipeline reads: the method, the three headers (a
  header that was not sent is \<^verbatim>\<open>undefined\<close>) and the parsed body, a JavaScript value
  of a type \<open>'b\<close> that is left open.
\<close>

record 'b request =
  http_method :: string
  x_api_key :: "string option"
  x_webhook_signature :: "jsstring option"
  x_idempotency_key :: "string option"
  body :: 'b

text \<open>\<^verbatim>\<open>['POST', 'PUT', 'PATCH'].includes(request.method)\<close>\<close>

definition mutating :: "string \<Rightarrow> bool" where
  "mutating m = (m \<in> set [''POST'', ''PUT'', ''PATCH''])"

section \<open>SignatureGuard (\<^verbatim>\<open>src/auth/guards/signature.guard.ts\<close>)\<close>

text \<open>
  \<^verbatim>\<open>canActivate\<close> returns \<^verbatim>\<open>true\<close> or throws a \<^verbatim>\<open>ForbiddenException\<close>.
  \<open>skipSignature\<close> is what the reflector reads from the route's metadata.
  \<^verbatim>\<open>JSON.stringify\<close> is the runtime's own function and is not redefined here: it is the
  parameter \<open>JSON_stringify\<close>, which gives for a parsed body the text the
  runtime writes for it (as the UTF-8 bytes that are hashed), whatever that text is.
\<close>

definition SignatureGuard_canActivate ::
  "('b \<Rightarrow> string) \<Rightarrow> string \<Rightarrow> bool \<Rightarrow> 'b request \<Rightarrow> js_error + bool" where
  "SignatureGuard_canActivate JSON_stringify webhookSecret skipSignature request =
     (if skipSignature then Inr True
      else if \<not> mutating (http_method request) then Inr True
      else if \<not> truthy (x_webhook_signature request)
        then Inl (ForbiddenException ''Webhook signature is required'')
      else if \<not> verify webhookSecret (JSON_stringify (body request)) (x_webhook_signature request)
        then Inl (ForbiddenException ''Invalid webhook signature'')
      else Inr True)"

section \<open>CredentialGate\<close>

text \<open>
  Modelled from the spec: the source of the credential gate (\<^verbatim>\<open>ApiKeyGuard\<close>,
  \<^verbatim>\<open>src/auth/guards/api-key.guard.ts\<close>) is not among the repository's files; only its unit
  tests and the module that registers it are. The definition follows section 4.2 of the
  specification: the route's public flag, the credential header (possibly absent) and the
  configured value decide, in this order.
\<close>

datatype decision = Admit | Deny string

definition CredentialGate :: "string \<Rightarrow> bool \<Rightarrow> string option \<Rightarrow> decision" where
  "CredentialGate configured isPublic credential =
     (if isPublic then Admit
      else case credential of
        None \<Rightarrow> Deny ''credential required''
      | Some c \<Rightarrow> if c \<noteq> configured then Deny ''invalid credential'' else Admit)"

section \<open>IdempotencyInterceptor (\<^verbatim>\<open>src/common/interceptors/idempotency.interceptor.ts\<close>)\<close>

text \<open>
  The cache is a JavaScript \<^verbatim>\<open>Map\<close>: an association list in insertion order,
  \<^verbatim>\<open>get\<close> is \<^const>\<open>map_of\<close>, \<^verbatim>\<open>set\<close> is \<^const>\<open>AList.update\<close> (an existing key
  keeps its place, a new one goes last). Times are milliseconds since the epoch.
\<close>

record 'a CachedResponse =
  data :: 'a
  timestamp :: int

type_synonym 'a cache = "(string \<times> 'a CachedResponse) list"

definition TTL :: int where
  "TTL = 24 * 60 * 60 * 1000"

fun cleanExpiredEntries :: "int \<Rightarrow> 'a cache \<Rightarrow> 'a cache" where
  "cleanExpiredEntries now [] = []"
| "cleanExpiredEntries now ((key, val) # rest) =
     (if now - timestamp val > TTL then cleanExpiredEntries now rest
      else (key, val) # cleanExpiredEntries now rest)"

text \<open>
  \<open>next\<close> is the rest of the pipeline (\<^verbatim>\<open>next.handle()\<close>): run on the downstream state
  \<open>st\<close> it yields a response or an error and the new downstream state. \<open>now\<close> is the
  clock when the interceptor runs, \<open>later\<close> the clock when the response is emitted
  (\<^verbatim>\<open>tap\<close> runs its callback on emitted values only, not on errors). The result is the
  response or error of the request, the cache and the downstream state afterwards.
\<close>

definition intercept ::
  "int \<Rightarrow> int \<Rightarrow> 'b request \<Rightarrow> ('s \<Rightarrow> ('e + 'a) \<times> 's) \<Rightarrow> 'a cache \<Rightarrow> 's
     \<Rightarrow> ('e + 'a) \<times> 'a cache \<times> 's" where
  "intercept now later request next cache st =
     (if \<not> mutating (http_method request) then (fst (next st), cache, snd (next st))
      else case x_idempotency_key request of
        None \<Rightarrow> (fst (next st), cache, snd (next st))
      | Some idempotencyKey \<Rightarrow>
          if idempotencyKey = [] then (fst (next st), cache, snd (next st))
          else (case map_of (cleanExpiredEntries now cache) idempotencyKey of
                  Some cached \<Rightarrow> (Inr (data cached), cleanExpiredEntries now cache, st)
                | None \<Rightarrow>
                    (case fst (next st) of
                       Inr d \<Rightarrow>
                         (Inr d,
                          AList.update idempotencyKey \<lparr>data = d, timestamp = later\<rparr>
                            (cleanExpiredEntries now cache),
                          snd (next st))
                     | Inl e \<Rightarrow> (Inl e, cleanExpiredEntries now cache, snd (next st)))))"

section \<open>WebhooksService (\<^verbatim>\<open>src/webhooks/webhooks.service.ts\<close>)\<close>

datatype WebhookStatus = Pending | Processed | Failed

text \<open>The entity (\<^verbatim>\<open>webhook.entity.ts\<close>); \<open>id'\<close> is its \<^verbatim>\<open>id\<close> column.\<close>

record 'p Webhook =
  id' :: string
  source :: string
  event :: string
  payload :: 'p
  signature :: "jsstring option"
  idempotencyKey :: "string option"
  receivedAt :: int
  status :: WebhookStatus

record 'p CreateWebhookDto =
  dto_source :: string
  dto_event :: string
  dto_payload :: 'p

subsection \<open>The persistence collaborator\<close>

text \<open>
  The TypeORM repository of the entity, as a table of rows in insertion order and a log of
  the calls made to it. The entity declares \<^verbatim>\<open>id\<close> as the primary column and
  \<^verbatim>\<open>idempotencyKey\<close> as \<^verbatim>\<open>nullable: true, unique: true\<close> (any number of rows may
  hold \<^verbatim>\<open>null\<close>). \<^verbatim>\<open>findOne\<close> returns the first matching row or \<^verbatim>\<open>null\<close>.
  \<^verbatim>\<open>save\<close> updates the row with the entity's primary key when there is one and inserts
  otherwise; the database rejects a write that would give two rows the same non-null
  \<^verbatim>\<open>idempotencyKey\<close>, and the write is then not performed.
\<close>

datatype 'p repo_call =
    FindOneByIdempotencyKey string
  | Save "'p Webhook"
  | GetManyAndCount int int

record 'p repository =
  rows :: "'p Webhook list"
  calls :: "'p repo_call list"

definition findOneByIdempotencyKey ::
  "string \<Rightarrow> 'p repository \<Rightarrow> 'p Webhook option \<times> 'p repository" where
  "findOneByIdempotencyKey k r =
     (find (\<lambda>w. idempotencyKey w = Some k) (rows r),
      r\<lparr>calls := calls r @ [FindOneByIdempotencyKey k]\<rparr>)"

definition unique_violation :: "'p Webhook \<Rightarrow> 'p Webhook list \<Rightarrow> bool" where
  "unique_violation w ws =
     (idempotencyKey w \<noteq> None \<and>
      list_ex (\<lambda>w'. idempotencyKey w' = idempotencyKey w \<and> id' w' \<noteq> id' w) ws)"

definition save :: "'p Webhook \<Rightarrow> 'p repository \<Rightarrow> (js_error + 'p Webhook) \<times> 'p repository" where
  "save w r =
     (if unique_violation w (rows r) then
        (Inl (QueryFailedError ''UNIQUE constraint failed: webhooks.idempotencyKey''),
         r\<lparr>calls := calls r @ [Save w]\<rparr>)
      else case find (\<lambda>w'. id' w' = id' w) (rows r) of
        Some old \<Rightarrow>
          (Inr (w\<lparr>receivedAt := receivedAt old\<rparr>),
           r\<lparr>rows := map (\<lambda>w'. if id' w' = id' w then w\<lparr>receivedAt := receivedAt old\<rparr> else w')
                        (rows r),
             calls := calls r @ [Save w]\<rparr>)
      | None \<Rightarrow> (Inr w, r\<lparr>rows := rows r @ [w], calls := calls r @ [Save w]\<rparr>))"

subsection \<open>\<^verbatim>\<open>create\<close>\<close>

text \<open>
  \<open>uuid\<close> is the value \<^verbatim>\<open>uuidv4()\<close> returns in this call and \<open>now\<close> the time the store
  gives the \<^verbatim>\<open>CreateDateColumn\<close> \<^verbatim>\<open>receivedAt\<close> at the insert; \<open>sig\<close> and
  \<open>idemKey\<close> are the arguments \<^verbatim>\<open>signature\<close> and \<^verbatim>\<open>idempotencyKey\<close>. The method awaits the
  repository twice: \<open>create_lookup\<close> is the code up to the first \<^verbatim>\<open>await\<close> and its test
  (lines 26 to 34), \<open>create_insert\<close> the rest (lines 36 to 47). Another request may run
  between the two.
\<close>

definition create_lookup ::
  "string option \<Rightarrow> 'p repository \<Rightarrow> 'p Webhook option \<times> 'p repository" where
  "create_lookup idemKey r =
     (case idemKey of
        None \<Rightarrow> (None, r)
      | Some k \<Rightarrow> if k = [] then (None, r) else findOneByIdempotencyKey k r)"

text \<open>The entity built by \<^verbatim>\<open>this.webhookRepository.create({...})\<close> (lines 36 to 44).\<close>

definition new_webhook ::
  "string \<Rightarrow> int \<Rightarrow> 'p CreateWebhookDto \<Rightarrow> jsstring option \<Rightarrow> string option \<Rightarrow> 'p Webhook" where
  "new_webhook uuid now createWebhookDto sig idemKey =
     \<lparr>id' = uuid,
      source = dto_source createWebhookDto,
      event = dto_event createWebhookDto,
      payload = dto_payload createWebhookDto,
      signature = or_null sig,
      idempotencyKey = or_null idemKey,
      receivedAt = now,
      status = Pending\<rparr>"

definition create_insert ::
  "string \<Rightarrow> int \<Rightarrow> 'p CreateWebhookDto \<Rightarrow> jsstring option \<Rightarrow> string option \<Rightarrow> 'p repository
     \<Rightarrow> (js_error + 'p Webhook \<times> bool) \<times> 'p repository" where
  "create_insert uuid now createWebhookDto sig idemKey r =
     (case save (new_webhook uuid now createWebhookDto sig idemKey) r of
        (Inl e, r') \<Rightarrow> (Inl e, r')
      | (Inr saved, r') \<Rightarrow> (Inr (saved, True), r'))"

definition create ::
  "string \<Rightarrow> int \<Rightarrow> 'p CreateWebhookDto \<Rightarrow> jsstring option \<Rightarrow> string option \<Rightarrow> 'p repository
     \<Rightarrow> (js_error + 'p Webhook \<times> bool) \<times> 'p repository" where
  "create uuid now createWebhookDto sig idemKey r =
     (case create_lookup idemKey r of
        (Some existing, r') \<Rightarrow> (Inr (existing, False), r')
      | (None, r') \<Rightarrow> create_insert uuid now createWebhookDto sig idemKey r')"

text \<open>
  A sequence of \<^verbatim>\<open>create\<close> calls, one after the other, each with the identifier and the
  time it draws; the results are dropped, the repository is threaded through.
\<close>

fun creates ::
  "(string \<times> int \<times> 'p CreateWebhookDto \<times> jsstring option \<times> string option) list
     \<Rightarrow> 'p repository \<Rightarrow> 'p repository" where
  "creates [] r = r"
| "creates ((uuid, now, createWebhookDto, sig, idemKey) # cs) r =
     creates cs (snd (create uuid now createWebhookDto sig idemKey r))"

text \<open>
  The invariant of the data model: two stored records with the same idempotency key, when
  it is not \<^verbatim>\<open>null\<close>, have the same \<^verbatim>\<open>id\<close>.
\<close>

definition one_record_per_key :: "'p Webhook list \<Rightarrow> bool" where
  "one_record_per_key ws =
     list_all (\<lambda>a. list_all (\<lambda>b.
        if idempotencyKey a \<noteq> None \<and> idempotencyKey a = idempotencyKey b
        then id' a = id' b else True) ws) ws"

subsection \<open>\<^verbatim>\<open>findAll\<close>\<close>












section \<open>Properties\<close>

lemma truthy_simps: "truthy None = False" "truthy (Some s) = (s \<noteq> [])"
  by (simp_all add: truthy_def)

subsection \<open>Hexadecimal encoding and decoding\<close>

lemma js_simps: "js [] = []" "js (c # s) = of_char c # js s" "js (s @ t) = js s @ js t"
  by (simp_all add: js_def)

lemma length_js: "length (js s) = length s"
  by (simp add: js_def)

lemma unhex_hexdigit: "0 \<le> n \<Longrightarrow> n < 16 \<Longrightarrow> unhex (of_char (hexdigit n)) = Some n"
proof -
  assume "0 \<le> n" "n < 16"
  then have "n \<in> {0, 1, 2, 3, 4, 5, 6, 7, 8, 9, 10, 11, 12, 13, 14, 15}"
    by simp arith
  then show ?thesis
    by (auto simp: hexdigit_def unhex_def)
qed

lemma Buffer_from_hex_hex_byte:
  assumes "0 \<le> b" "b < 256"
  shows "Buffer_from_hex (js (hex_byte b) @ r) = b # Buffer_from_hex r"
proof -
  have "0 \<le> b div 16" "b div 16 < 16" "0 \<le> b mod 16" "b mod 16 < 16"
    using assms by auto
  then show ?thesis
    by (simp add: hex_byte_def js_simps unhex_hexdigit)
qed

lemma Buffer_from_hex_hex_encode_append:
  "byte_list bs \<Longrightarrow> Buffer_from_hex (js (hex_encode bs) @ t) = bs @ Buffer_from_hex t"
proof (induction bs)
  case Nil
  then show ?case by (simp add: hex_encode_def js_simps)
next
  case (Cons b bs)
  then have b: "0 \<le> b" "b < 256" and bs: "byte_list bs"
    by (simp_all add: byte_list_def)
  have "js (hex_encode (b # bs)) @ t = js (hex_byte b) @ (js (hex_encode bs) @ t)"
    by (simp add: hex_encode_def js_simps)
  then show ?case
    using b Cons.IH [OF bs] by (simp add: Buffer_from_hex_hex_byte)
qed

lemma Buffer_from_hex_hex_encode:
  "byte_list bs \<Longrightarrow> Buffer_from_hex (js (hex_encode bs)) = bs"
  using Buffer_from_hex_hex_encode_append [of bs "[]"] by simp

lemma length_hex_encode: "length (hex_encode bs) = 2 * length bs"
  by (induction bs) (simp_all add: hex_encode_def hex_byte_def)

lemma verify_try_eq:
  "verify_try s e = Inr (Buffer_from_hex s = Buffer_from_hex (js e))"
  by (auto simp: verify_try_def timingSafeEqual_def)

lemma Buffer_from_hex_Nil_iff:
  "(Buffer_from_hex t = []) = (length t < 2 \<or> unhex (t ! 0) = None \<or> unhex (t ! 1) = None)"
  by (cases t rule: Buffer_from_hex.cases) (auto split: option.splits)

lemma byte_list_bytes_of_u32:
  "0 \<le> w \<Longrightarrow> w < 4294967296 \<Longrightarrow> byte_list (bytes_of_u32 w)"
  by (simp add: byte_list_def bytes_of_u32_def) arith

lemma length8_cases:
  "length (hs :: int list) = 8 \<Longrightarrow> \<exists>a b c d e f g h. hs = [a, b, c, d, e, f, g, h]"
  by (auto simp: length_Suc_conv eval_nat_numeral)

lemma length_round1: "length hs = 8 \<Longrightarrow> length (round1 hs kw) = 8"
proof -
  assume "length hs = 8"
  then obtain a b c d e f g h where "hs = [a, b, c, d, e, f, g, h]"
    using length8_cases by blast
  then show ?thesis by (cases kw) simp
qed

lemma length_foldl_round1: "length hs = 8 \<Longrightarrow> length (foldl round1 hs kws) = 8"
  by (induction kws arbitrary: hs) (simp_all add: length_round1)

lemma add32_range: "0 \<le> add32 a b \<and> add32 a b < 4294967296"
  by (simp add: add32_def)

lemma words8_compress: "length hs = 8 \<Longrightarrow> words8 (compress hs blk)"
  by (auto simp: words8_def compress_def length_foldl_round1 list_all_iff add32_range
      dest!: set_zip_leftD in_set_zipE)

lemma words8_blocks: "words8 hs \<Longrightarrow> words8 (blocks n m hs)"
proof (induction n arbitrary: m hs)
  case 0
  then show ?case by simp
next
  case (Suc n)
  have "length hs = 8"
    using Suc.prems by (simp add: words8_def)
  then have "words8 (compress hs (take 64 m))"
    by (rule words8_compress)
  then show ?case by (simp add: Suc.IH)
qed

lemma words8_H0: "words8 H0"
  by (simp add: words8_def H0_def)

lemma sha256_bytes: "byte_list (sha256 m) \<and> length (sha256 m) = 32"
proof -
  define ws where "ws = blocks (length (pad m) div 64) (pad m) H0"
  have w: "words8 ws"
    unfolding ws_def by (rule words8_blocks [OF words8_H0])
  have "byte_list (concat (map bytes_of_u32 xs)) \<and> length (concat (map bytes_of_u32 xs)) = 4 * length xs"
    if "list_all (\<lambda>w. 0 \<le> w \<and> w < 4294967296) xs" for xs
    using that
  proof (induction xs)
    case Nil
    then show ?case by (simp add: byte_list_def)
  next
    case (Cons x xs)
    then have "byte_list (bytes_of_u32 x)"
      by (simp add: byte_list_bytes_of_u32)
    with Cons show ?case
      by (simp add: byte_list_def bytes_of_u32_def)
  qed
  with w show ?thesis
    by (simp add: sha256_def ws_def [symmetric] words8_def)
qed

lemma hmac_sha256_bytes: "byte_list (hmac_sha256 key msg) \<and> length (hmac_sha256 key msg) = 32"
  unfolding hmac_sha256_def by (rule sha256_bytes)

lemma length_generate: "length (generate S P) = 64"
  by (simp add: generate_def length_hex_encode hmac_sha256_bytes)

lemma Buffer_from_hex_generate:
  "Buffer_from_hex (js (generate S P)) = hmac_sha256 (bytes S) (bytes P)"
  by (simp add: generate_def Buffer_from_hex_hex_encode hmac_sha256_bytes)

lemma verify_Some:
  "verify S P (Some s) = (s \<noteq> [] \<and> Buffer_from_hex s = hmac_sha256 (bytes S) (bytes P))"
  by (simp add: verify_def verify_try_eq Buffer_from_hex_generate)

lemma Buffer_from_hex_flip:
  "byte_list d \<Longrightarrow> i < length (hex_encode d) \<Longrightarrow>
   (Buffer_from_hex ((js (hex_encode d))[i := c]) = d) = (unhex c = unhex (js (hex_encode d) ! i))"
proof (induction d arbitrary: i)
  case Nil
  then show ?case by (simp add: hex_encode_def)
next
  case (Cons b bs)
  define hi lo where "hi = b div 16" and "lo = b mod 16"
  have b: "0 \<le> b" "b < 256" and bs: "byte_list bs"
    using Cons.prems(1) by (simp_all add: byte_list_def)
  have range: "0 \<le> hi" "hi < 16" "0 \<le> lo" "lo < 16" and split: "b = hi * 16 + lo"
    using b by (auto simp: hi_def lo_def)
  have enc: "js (hex_encode (b # bs))
      = of_char (hexdigit hi) # of_char (hexdigit lo) # js (hex_encode bs)"
    by (simp add: hex_encode_def hex_byte_def hi_def lo_def js_simps)
  have len: "length (hex_encode (b # bs)) = Suc (Suc (length (hex_encode bs)))"
    by (simp add: hex_encode_def hex_byte_def)
  have dec: "Buffer_from_hex (js (hex_encode bs)) = bs"
    using bs by (rule Buffer_from_hex_hex_encode)
  have uh: "unhex (of_char (hexdigit hi)) = Some hi" "unhex (of_char (hexdigit lo)) = Some lo"
    using range by (simp_all add: unhex_hexdigit)
  consider "i = 0" | "i = 1" | j where "i = Suc (Suc j)"
    by (cases i rule: nat.exhaust [case_product nat.exhaust]) (auto, metis nat.exhaust)
  then show ?case
  proof cases
    case 1
    show ?thesis
      unfolding enc 1 using uh dec by (auto simp: split split: option.splits)
  next
    case 2
    show ?thesis
      unfolding enc 2 using uh dec by (auto simp: split split: option.splits)
  next
    case 3
    then have "j < length (hex_encode bs)"
      using Cons.prems(2) by (simp add: len)
    then have "(Buffer_from_hex ((js (hex_encode bs))[j := c]) = bs)
        = (unhex c = unhex (js (hex_encode bs) ! j))"
      using bs by (simp add: Cons.IH)
    then show ?thesis
      unfolding enc 3 using uh split by simp
  qed
qed

lemma length_Buffer_from_hex: "2 * length (Buffer_from_hex s) \<le> length s"
  by (induction s rule: Buffer_from_hex.induct) (auto split: option.splits)

lemma Buffer_from_hex_stops:
  "i < length s \<Longrightarrow> unhex (s ! i) = None \<Longrightarrow> 2 * length (Buffer_from_hex s) \<le> i"
proof (induction s arbitrary: i rule: Buffer_from_hex.induct)
  case (1 a b r)
  show ?case
  proof (cases "i < 2")
    case True
    then have "i = 0 \<or> i = 1" by auto
    then show ?thesis
      using "1.prems" by (auto split: option.splits)
  next
    case False
    then obtain j where j: "i = Suc (Suc j)"
      by (metis One_nat_def Suc_1 less_Suc_eq not0_implies_Suc zero_less_Suc)
    show ?thesis
    proof (cases "unhex a")
      case None
      then show ?thesis by simp
    next
      case (Some x)
      show ?thesis
      proof (cases "unhex b")
        case None
        with Some show ?thesis by simp
      next
        case (Some y)
        have "2 * length (Buffer_from_hex r) \<le> j"
          using "1.IH" [OF \<open>unhex a = Some x\<close> Some, of j] "1.prems" j by simp
        then show ?thesis
          using \<open>unhex a = Some x\<close> Some j by simp
      qed
    qed
  qed
qed simp_all

lemma verify_wrong_length: "length (Buffer_from_hex s) \<noteq> 32 \<Longrightarrow> \<not> verify S P (Some s)"
  using hmac_sha256_bytes [of "bytes S" "bytes P"] by (auto simp: verify_Some)

lemma generate_not_empty: "js (generate S P) \<noteq> []"
  using length_generate [of S P] length_js [of "generate S P"] by auto

lemma verify_generate: "verify S P (Some (js (generate S P)))"
  by (simp add: verify_Some Buffer_from_hex_generate generate_not_empty)

subsection \<open>SignatureService\<close>

text \<open>
  The signature of the body \<^verbatim>\<open>{}\<close> under the secret the service falls back to when
  none is configured, computed by the definitions above.
\<close>

lemma generate_default_empty_object:
  "generate ''default-webhook-secret'' ''{}'' =
     ''b1052d22e3638c8e769b3702d16bae67bf1fb8cbd1c3976edf5118331764c7ba''"
  by code_simp

lemma unhex_low_byte: "unhex c = unhex (c AND 255)"
proof -
  have m: "(255 :: 16 word) = mask 8"
    by (simp add: mask_eq_exp_minus_1)
  have "unat (c AND 255) = unat c mod 256"
    unfolding m by (simp add: take_bit_eq_mod unat_mod flip: take_bit_eq_mask)
  then show ?thesis
    by (simp add: unhex_def)
qed

text \<open>
  C4, as the code has it. \<^verbatim>\<open>verify(P, generate(P))\<close> is true for every payload and
  secret. Replacing the character at one position \<open>i\<close> of \<^verbatim>\<open>generate(P)\<close> by a
  UTF-16 code unit \<open>c\<close> gives a signature that \<^verbatim>\<open>verify\<close> rejects exactly when
  \<open>c\<close>, read by its low byte, is not a hexadecimal digit, in either case, with the
  same value as the digit it replaces: \<^verbatim>\<open>Buffer.from(s, 'hex')\<close> reads both cases and
  only the low byte of each code unit.
\<close>

theorem verify_generate_single_flip:
  "verify S P (Some (js (generate S P))) \<and>
   (\<forall>i c. i < 64 \<longrightarrow>
      verify S P (Some ((js (generate S P))[i := c]))
        = (unhex c = unhex (js (generate S P) ! i))) \<and>
   (\<forall>c. unhex c = unhex (c AND 255))"
proof (intro conjI allI impI)
  show "verify S P (Some (js (generate S P)))"
    by (simp add: verify_Some Buffer_from_hex_generate generate_not_empty)
next
  fix i c
  assume i: "i < (64 :: nat)"
  have ne: "(js (generate S P))[i := c] \<noteq> []"
    using generate_not_empty [of S P] by simp
  have "(Buffer_from_hex ((js (hex_encode (hmac_sha256 (bytes S) (bytes P))))[i := c])
          = hmac_sha256 (bytes S) (bytes P))
        = (unhex c = unhex (js (hex_encode (hmac_sha256 (bytes S) (bytes P))) ! i))"
    using i by (intro Buffer_from_hex_flip) (simp_all add: hmac_sha256_bytes length_hex_encode)
  then show "verify S P (Some ((js (generate S P))[i := c]))
      = (unhex c = unhex (js (generate S P) ! i))"
    using ne by (simp add: verify_Some) (simp add: generate_def)
next
  fix c
  show "unhex c = unhex (c AND 255)"
    by (rule unhex_low_byte)
qed

text \<open>At the signature of \<^verbatim>\<open>{}\<close>: the first digit changed to another digit, the last
  one replaced by a character that is no digit, and the first one replaced by
  \<^verbatim>\<open>U+0162\<close> (the code unit 354), whose low byte is the digit \<^verbatim>\<open>b\<close> it replaces.\<close>

theorem verify_generate_single_flip_witness:
  "verify ''default-webhook-secret'' ''{}''
     (Some (js ''b1052d22e3638c8e769b3702d16bae67bf1fb8cbd1c3976edf5118331764c7ba'')) \<and>
   \<not> verify ''default-webhook-secret'' ''{}''
     (Some (js ''c1052d22e3638c8e769b3702d16bae67bf1fb8cbd1c3976edf5118331764c7ba'')) \<and>
   \<not> verify ''default-webhook-secret'' ''{}''
     (Some (js ''b1052d22e3638c8e769b3702d16bae67bf1fb8cbd1c3976edf5118331764c7bz'')) \<and>
   verify ''default-webhook-secret'' ''{}''
     (Some (354 # js ''1052d22e3638c8e769b3702d16bae67bf1fb8cbd1c3976edf5118331764c7ba''))"
proof -
  note t = verify_generate_single_flip [of "''default-webhook-secret''" "''{}''",
      unfolded generate_default_empty_object]
  from t have a: "verify ''default-webhook-secret'' ''{}''
     (Some (js ''b1052d22e3638c8e769b3702d16bae67bf1fb8cbd1c3976edf5118331764c7ba''))"
    by (rule conjunct1)
  from t [THEN conjunct2, THEN conjunct1, rule_format, of 0 "of_char CHR ''c''"]
  have b: "\<not> verify ''default-webhook-secret'' ''{}''
     (Some (js ''c1052d22e3638c8e769b3702d16bae67bf1fb8cbd1c3976edf5118331764c7ba''))"
    by (simp add: js_def unhex_def)
  from t [THEN conjunct2, THEN conjunct1, rule_format, of 63 "of_char CHR ''z''"]
  have c: "\<not> verify ''default-webhook-secret'' ''{}''
     (Some (js ''b1052d22e3638c8e769b3702d16bae67bf1fb8cbd1c3976edf5118331764c7bz''))"
    by (simp add: js_def unhex_def)
  from t [THEN conjunct2, THEN conjunct1, rule_format, of 0 354]
  have d: "verify ''default-webhook-secret'' ''{}''
     (Some (354 # js ''1052d22e3638c8e769b3702d16bae67bf1fb8cbd1c3976edf5118331764c7ba''))"
    by (simp add: js_def unhex_def)
  from a b c d show ?thesis by simp
qed

text \<open>
  C4 as stated fails: the signature of \<^verbatim>\<open>{}\<close> starts with \<^verbatim>\<open>b\<close>; with that one
  character flipped to \<^verbatim>\<open>B\<close> it still verifies.
\<close>

theorem verify_case_flip_counterexample:
  "generate ''default-webhook-secret'' ''{}'' =
     ''b1052d22e3638c8e769b3702d16bae67bf1fb8cbd1c3976edf5118331764c7ba'' \<and>
   verify ''default-webhook-secret'' ''{}''
     (Some (js ''B1052d22e3638c8e769b3702d16bae67bf1fb8cbd1c3976edf5118331764c7ba''))"
  by (simp add: verify_Some Buffer_from_hex_generate [symmetric]
      generate_default_empty_object js_def unhex_def)

text \<open>
  The signature \<^verbatim>\<open>generate\<close> returns is 64 characters long, each one of
  \<^verbatim>\<open>0123456789abcdef\<close>, for every secret and payload.
\<close>

theorem generate_format:
  "length (generate S P) = 64 \<and> set (generate S P) \<subseteq> set ''0123456789abcdef''"
proof -
  have digit: "hexdigit n \<in> set ''0123456789abcdef''" if "0 \<le> n" "n < 16" for n
  proof -
    have "nat n < length ''0123456789abcdef''"
      using that by simp
    then show ?thesis
      unfolding hexdigit_def by (rule nth_mem)
  qed
  have "set (hex_encode bs) \<subseteq> set ''0123456789abcdef''" if "byte_list bs" for bs
    using that
  proof (induction bs)
    case Nil
    then show ?case by (simp add: hex_encode_def)
  next
    case (Cons b bs)
    then have b: "0 \<le> b" "b < 256" and bs: "byte_list bs"
      by (simp_all add: byte_list_def)
    have "0 \<le> b div 16" "b div 16 < 16" "0 \<le> b mod 16" "b mod 16 < 16"
      using b by auto
    then have "set (hex_byte b) \<subseteq> set ''0123456789abcdef''"
      unfolding hex_byte_def using digit by (metis empty_subsetI insert_subset list.simps(15) list.set(1))
    moreover have "hex_encode (b # bs) = hex_byte b @ hex_encode bs"
      by (simp add: hex_encode_def)
    ultimately show ?case
      using Cons.IH [OF bs] by simp
  qed
  then have "set (generate S P) \<subseteq> set ''0123456789abcdef''"
    by (simp add: generate_def hmac_sha256_bytes)
  then show ?thesis
    by (simp add: length_generate)
qed

text \<open>
  C5, as the code has it. The \<^verbatim>\<open>try\<close> block of \<^verbatim>\<open>verify\<close> never throws, so
  \<^verbatim>\<open>verify\<close> returns a boolean for every input. It returns false for an absent
  signature, for the empty one, for every signature that \<^verbatim>\<open>Buffer.from(s, 'hex')\<close>
  decodes to a number of bytes other than the 32 of the digest, hence for every signature
  shorter than 64 characters and for every signature that has among its first 64
  characters one whose low byte is no hexadecimal digit. It does not return false for
  every signature that is not valid hexadecimal: the expected signature followed by a
  text \<open>t\<close> is accepted exactly when the decoding stops right after the signature,
  which is when \<open>t\<close> has fewer than two characters or the low byte of its first or of
  its second character is no hexadecimal digit.
\<close>

theorem verify_never_raises:
  "(\<forall>s e. \<exists>b. verify_try s e = Inr b) \<and>
   verify S P None = False \<and>
   verify S P (Some []) = False \<and>
   (\<forall>s. length (Buffer_from_hex s) \<noteq> 32 \<longrightarrow> verify S P (Some s) = False) \<and>
   (\<forall>s. length s < 64 \<longrightarrow> verify S P (Some s) = False) \<and>
   (\<forall>s i. i < 64 \<and> i < length s \<and> unhex (s ! i AND 255) = None \<longrightarrow>
      verify S P (Some s) = False) \<and>
   (\<forall>t. verify S P (Some (js (generate S P) @ t))
      = (length t < 2 \<or> unhex (t ! 0 AND 255) = None \<or> unhex (t ! 1 AND 255) = None))"
proof (intro conjI allI impI)
  fix s e
  show "\<exists>b. verify_try s e = Inr b"
    by (simp add: verify_try_eq)
next
  show "verify S P None = False"
    by (simp add: verify_def)
next
  show "verify S P (Some []) = False"
    by (simp add: verify_def)
next
  fix s
  assume "length (Buffer_from_hex s) \<noteq> 32"
  then show "verify S P (Some s) = False"
    using hmac_sha256_bytes [of "bytes S" "bytes P"] by (auto simp: verify_Some)
next
  fix s :: jsstring
  assume "length s < 64"
  then have "length (Buffer_from_hex s) \<noteq> 32"
    using length_Buffer_from_hex [of s] by simp
  then show "verify S P (Some s) = False"
    using hmac_sha256_bytes [of "bytes S" "bytes P"] by (auto simp: verify_Some)
next
  fix s :: jsstring and i
  assume "i < 64 \<and> i < length s \<and> unhex (s ! i AND 255) = None"
  then have "i < 64" "i < length s" "unhex (s ! i) = None"
    using unhex_low_byte [of "s ! i"] by simp_all
  then have "length (Buffer_from_hex s) \<noteq> 32"
    using Buffer_from_hex_stops [of i s] by simp
  then show "verify S P (Some s) = False"
    using hmac_sha256_bytes [of "bytes S" "bytes P"] by (auto simp: verify_Some)
next
  fix t :: jsstring
  have "Buffer_from_hex (js (generate S P) @ t)
      = hmac_sha256 (bytes S) (bytes P) @ Buffer_from_hex t"
    by (simp add: generate_def Buffer_from_hex_hex_encode_append hmac_sha256_bytes)
  then have "verify S P (Some (js (generate S P) @ t)) = (Buffer_from_hex t = [])"
    by (simp add: verify_Some generate_not_empty)
  then show "verify S P (Some (js (generate S P) @ t))
      = (length t < 2 \<or> unhex (t ! 0 AND 255) = None \<or> unhex (t ! 1 AND 255) = None)"
    using unhex_low_byte [of "t ! 0"] unhex_low_byte [of "t ! 1"]
    by (simp add: Buffer_from_hex_Nil_iff)
qed

text \<open>At the malformed signatures of the unit tests, and at the signature of \<^verbatim>\<open>{}\<close>
  followed by \<^verbatim>\<open>00zz\<close>, which decodes to 33 bytes, and by \<^verbatim>\<open>z\<close>.\<close>

theorem verify_never_raises_witness:
  "verify ''test-webhook-secret'' ''{}'' None = False \<and>
   verify ''test-webhook-secret'' ''{}'' (Some (js '''')) = False \<and>
   verify ''test-webhook-secret'' ''{}'' (Some (js ''abc123'')) = False \<and>
   verify ''test-webhook-secret'' ''{}''
     (Some (js ''invalid-signature-that-is-not-valid-hex'')) = False \<and>
   verify ''default-webhook-secret'' ''{}''
     (Some (js ''b1052d22e3638c8e769b3702d16bae67bf1fb8cbd1c3976edf5118331764c7ba00zz'')) = False \<and>
   verify ''default-webhook-secret'' ''{}''
     (Some (js ''b1052d22e3638c8e769b3702d16bae67bf1fb8cbd1c3976edf5118331764c7baz'')) = True"
proof -
  note t = verify_never_raises [of "''test-webhook-secret''" "''{}''"]
  note u = verify_never_raises [of "''default-webhook-secret''" "''{}''",
      unfolded generate_default_empty_object, THEN conjunct2, THEN conjunct2, THEN conjunct2,
      THEN conjunct2, THEN conjunct2, THEN conjunct2, rule_format]
  have a: "verify ''test-webhook-secret'' ''{}'' (Some (js ''abc123'')) = False"
    using t [THEN conjunct2, THEN conjunct2, THEN conjunct2, THEN conjunct2, THEN conjunct1,
        rule_format, of "js ''abc123''"]
    by (simp add: js_def)
  have b: "verify ''test-webhook-secret'' ''{}''
      (Some (js ''invalid-signature-that-is-not-valid-hex'')) = False"
    using t [THEN conjunct2, THEN conjunct2, THEN conjunct2, THEN conjunct2, THEN conjunct2,
        THEN conjunct1, rule_format, of 0 "js ''invalid-signature-that-is-not-valid-hex''"]
    by (simp add: js_def unhex_def)
  have c: "verify ''default-webhook-secret'' ''{}''
     (Some (js ''b1052d22e3638c8e769b3702d16bae67bf1fb8cbd1c3976edf5118331764c7ba00zz'')) = False"
    using u [of "js ''00zz''"] by (simp add: js_def unhex_def)
  have d: "verify ''default-webhook-secret'' ''{}''
     (Some (js ''b1052d22e3638c8e769b3702d16bae67bf1fb8cbd1c3976edf5118331764c7baz'')) = True"
    using u [of "js ''z''"] by (simp add: js_def)
  from t a b c d show ?thesis by (simp add: js_def)
qed

text \<open>
  C5 as stated fails for a signature that is not valid hexadecimal only after its first 64
  characters: the decoding stops at \<^verbatim>\<open>zz\<close>, the 32 bytes before it are the digest,
  and \<^verbatim>\<open>verify\<close> returns true.
\<close>

theorem verify_trailing_garbage_counterexample:
  "\<not> list_all (\<lambda>c. unhex c \<noteq> None)
       (js ''b1052d22e3638c8e769b3702d16bae67bf1fb8cbd1c3976edf5118331764c7bazz'') \<and>
   verify ''default-webhook-secret'' ''{}''
     (Some (js ''b1052d22e3638c8e769b3702d16bae67bf1fb8cbd1c3976edf5118331764c7bazz'')) = True"
  by (simp add: verify_Some Buffer_from_hex_generate [symmetric]
      generate_default_empty_object js_def unhex_def)

subsection \<open>SignatureGuard\<close>

lemma mutating_iff: "mutating m = (m \<in> {''POST'', ''PUT'', ''PATCH''})"
  by (simp add: mutating_def)

text \<open>
  C3, as the code has it. A route annotated to skip the check is admitted; otherwise a
  request whose method is not \<^verbatim>\<open>POST\<close>, \<^verbatim>\<open>PUT\<close> or \<^verbatim>\<open>PATCH\<close> is admitted without a
  signature; otherwise a request whose signature header is absent or empty is denied with
  \<^verbatim>\<open>Webhook signature is required\<close>; otherwise the signature is checked by \<^verbatim>\<open>verify\<close>
  against \<^verbatim>\<open>JSON.stringify\<close> of the parsed body (not against the bytes that were sent),
  and the request is denied with \<^verbatim>\<open>Invalid webhook signature\<close> on a mismatch and admitted
  otherwise: it is admitted exactly when the header decodes to the HMAC-SHA256 of that
  serialization under the configured secret. This holds whatever text \<^verbatim>\<open>JSON.stringify\<close>
  gives for a body: \<open>J\<close> is any function from bodies to texts.
\<close>

theorem SignatureGuard_decision:
  "(skip \<longrightarrow> SignatureGuard_canActivate J S skip req = Inr True) \<and>
   (\<not> skip \<and> http_method req \<notin> {''POST'', ''PUT'', ''PATCH''} \<longrightarrow>
      SignatureGuard_canActivate J S skip req = Inr True) \<and>
   (\<not> skip \<and> http_method req \<in> {''POST'', ''PUT'', ''PATCH''} \<and>
    (x_webhook_signature req = None \<or> x_webhook_signature req = Some []) \<longrightarrow>
      SignatureGuard_canActivate J S skip req =
        Inl (ForbiddenException ''Webhook signature is required'')) \<and>
   (\<not> skip \<and> http_method req \<in> {''POST'', ''PUT'', ''PATCH''} \<and>
    x_webhook_signature req = Some s \<and> s \<noteq> [] \<and>
    \<not> verify S (J (body req)) (Some s) \<longrightarrow>
      SignatureGuard_canActivate J S skip req =
        Inl (ForbiddenException ''Invalid webhook signature'')) \<and>
   (\<not> skip \<and> http_method req \<in> {''POST'', ''PUT'', ''PATCH''} \<and>
    x_webhook_signature req = Some s \<and> s \<noteq> [] \<and>
    verify S (J (body req)) (Some s) \<longrightarrow>
      SignatureGuard_canActivate J S skip req = Inr True) \<and>
   (\<not> skip \<and> http_method req \<in> {''POST'', ''PUT'', ''PATCH''} \<and>
    x_webhook_signature req = Some s \<and> s \<noteq> [] \<longrightarrow>
      (SignatureGuard_canActivate J S skip req = Inr True)
        = (Buffer_from_hex s = hmac_sha256 (bytes S) (bytes (J (body req)))))"
  by (auto simp: SignatureGuard_canActivate_def mutating_iff truthy_simps verify_Some)

text \<open>
  One request for each of the five outcomes. The body is the empty object, written as the
  empty list of its members, and \<^verbatim>\<open>JSON.stringify\<close> gives \<^verbatim>\<open>{}\<close> for it; the last
  request is signed for that text.
\<close>

theorem SignatureGuard_decision_witness:
  "SignatureGuard_canActivate (\<lambda>b. ''{}'') ''default-webhook-secret'' True
     \<lparr>http_method = ''POST'', x_api_key = None, x_webhook_signature = None,
      x_idempotency_key = None, body = ([] :: (string \<times> string) list)\<rparr> = Inr True \<and>
   SignatureGuard_canActivate (\<lambda>b. ''{}'') ''default-webhook-secret'' False
     \<lparr>http_method = ''GET'', x_api_key = None, x_webhook_signature = None,
      x_idempotency_key = None, body = ([] :: (string \<times> string) list)\<rparr> = Inr True \<and>
   SignatureGuard_canActivate (\<lambda>b. ''{}'') ''default-webhook-secret'' False
     \<lparr>http_method = ''POST'', x_api_key = None, x_webhook_signature = None,
      x_idempotency_key = None, body = ([] :: (string \<times> string) list)\<rparr>
     = Inl (ForbiddenException ''Webhook signature is required'') \<and>
   SignatureGuard_canActivate (\<lambda>b. ''{}'') ''default-webhook-secret'' False
     \<lparr>http_method = ''POST'', x_api_key = None, x_webhook_signature = Some (js ''abc123''),
      x_idempotency_key = None, body = ([] :: (string \<times> string) list)\<rparr>
     = Inl (ForbiddenException ''Invalid webhook signature'') \<and>
   SignatureGuard_canActivate (\<lambda>b. ''{}'') ''default-webhook-secret'' False
     \<lparr>http_method = ''POST'', x_api_key = None,
      x_webhook_signature =
        Some (js ''b1052d22e3638c8e769b3702d16bae67bf1fb8cbd1c3976edf5118331764c7ba''),
      x_idempotency_key = None, body = ([] :: (string \<times> string) list)\<rparr> = Inr True"
proof -
  let ?J = "\<lambda>b :: (string \<times> string) list. ''{}''"
  have short: "\<not> verify ''default-webhook-secret'' ''{}'' (Some (js ''abc123''))"
    by (rule verify_wrong_length) (simp add: js_def unhex_def)
  have good: "verify ''default-webhook-secret'' ''{}''
      (Some (js ''b1052d22e3638c8e769b3702d16bae67bf1fb8cbd1c3976edf5118331764c7ba''))"
    using verify_generate [of "''default-webhook-secret''" "''{}''"]
    by (simp add: generate_default_empty_object)
  have ne: "js ''abc123'' \<noteq> []"
    "js ''b1052d22e3638c8e769b3702d16bae67bf1fb8cbd1c3976edf5118331764c7ba'' \<noteq> []"
    by (simp_all add: js_def)
  have a: "SignatureGuard_canActivate ?J ''default-webhook-secret'' True
     \<lparr>http_method = ''POST'', x_api_key = None, x_webhook_signature = None,
      x_idempotency_key = None, body = ([] :: (string \<times> string) list)\<rparr> = Inr True"
    using SignatureGuard_decision [THEN conjunct1, of True] by simp
  have b: "SignatureGuard_canActivate ?J ''default-webhook-secret'' False
     \<lparr>http_method = ''GET'', x_api_key = None, x_webhook_signature = None,
      x_idempotency_key = None, body = ([] :: (string \<times> string) list)\<rparr> = Inr True"
    using SignatureGuard_decision [THEN conjunct2, THEN conjunct1, of False
        "\<lparr>http_method = ''GET'', x_api_key = None, x_webhook_signature = None,
          x_idempotency_key = None, body = ([] :: (string \<times> string) list)\<rparr>"]
    by simp
  have c: "SignatureGuard_canActivate ?J ''default-webhook-secret'' False
     \<lparr>http_method = ''POST'', x_api_key = None, x_webhook_signature = None,
      x_idempotency_key = None, body = ([] :: (string \<times> string) list)\<rparr>
     = Inl (ForbiddenException ''Webhook signature is required'')"
    using SignatureGuard_decision [THEN conjunct2, THEN conjunct2, THEN conjunct1, of False
        "\<lparr>http_method = ''POST'', x_api_key = None, x_webhook_signature = None,
          x_idempotency_key = None, body = ([] :: (string \<times> string) list)\<rparr>"]
    by simp
  have d: "SignatureGuard_canActivate ?J ''default-webhook-secret'' False
     \<lparr>http_method = ''POST'', x_api_key = None, x_webhook_signature = Some (js ''abc123''),
      x_idempotency_key = None, body = ([] :: (string \<times> string) list)\<rparr>
     = Inl (ForbiddenException ''Invalid webhook signature'')"
    using short ne SignatureGuard_decision [THEN conjunct2, THEN conjunct2, THEN conjunct2,
        THEN conjunct1, of False
        "\<lparr>http_method = ''POST'', x_api_key = None, x_webhook_signature = Some (js ''abc123''),
          x_idempotency_key = None, body = ([] :: (string \<times> string) list)\<rparr>" "js ''abc123''"
        "''default-webhook-secret''" ?J]
    by simp
  have e: "SignatureGuard_canActivate ?J ''default-webhook-secret'' False
     \<lparr>http_method = ''POST'', x_api_key = None,
      x_webhook_signature =
        Some (js ''b1052d22e3638c8e769b3702d16bae67bf1fb8cbd1c3976edf5118331764c7ba''),
      x_idempotency_key = None, body = ([] :: (string \<times> string) list)\<rparr> = Inr True"
    using good ne SignatureGuard_decision [THEN conjunct2, THEN conjunct2, THEN conjunct2,
        THEN conjunct2, THEN conjunct1, of False
        "\<lparr>http_method = ''POST'', x_api_key = None,
          x_webhook_signature =
            Some (js ''b1052d22e3638c8e769b3702d16bae67bf1fb8cbd1c3976edf5118331764c7ba''),
          x_idempotency_key = None, body = ([] :: (string \<times> string) list)\<rparr>"
        "js ''b1052d22e3638c8e769b3702d16bae67bf1fb8cbd1c3976edf5118331764c7ba''"
        "''default-webhook-secret''" ?J]
    by simp
  from a b c d e show ?thesis by simp
qed

text \<open>
  A request whose signature header is the signature of \<^verbatim>\<open>JSON.stringify\<close> of its parsed
  body is admitted, whatever its method, body and other headers.
\<close>

theorem SignatureGuard_admits_signed:
  "SignatureGuard_canActivate J S skip
     (req\<lparr>x_webhook_signature := Some (js (generate S (J (body req))))\<rparr>) = Inr True"
  by (simp add: SignatureGuard_canActivate_def truthy_simps verify_generate generate_not_empty)

text \<open>
  C3 as stated fails for a signature header that is present and empty: the claim has it
  verified and denied as invalid, the guard denies it as missing.
\<close>

theorem SignatureGuard_empty_header_counterexample:
  "x_webhook_signature
     \<lparr>http_method = ''POST'', x_api_key = None, x_webhook_signature = Some [],
      x_idempotency_key = None, body = ([] :: (string \<times> string) list)\<rparr> \<noteq> None \<and>
   SignatureGuard_canActivate (\<lambda>b. ''{}'') ''default-webhook-secret'' False
     \<lparr>http_method = ''POST'', x_api_key = None, x_webhook_signature = Some [],
      x_idempotency_key = None, body = ([] :: (string \<times> string) list)\<rparr>
     = Inl (ForbiddenException ''Webhook signature is required'')"
  by (simp add: SignatureGuard_canActivate_def mutating_iff truthy_simps)

subsection \<open>CredentialGate\<close>

text \<open>
  C6. A public route is admitted whatever the credential; otherwise an absent credential is
  denied with reason \<open>credential required\<close>, a credential that differs from the configured
  value is denied with reason \<open>invalid credential\<close>, and the configured value is admitted.
\<close>

theorem CredentialGate_decision:
  "(isPublic \<longrightarrow> CredentialGate K isPublic c = Admit) \<and>
   (\<not> isPublic \<longrightarrow> CredentialGate K isPublic None = Deny ''credential required'') \<and>
   (\<not> isPublic \<and> c' \<noteq> K \<longrightarrow>
      CredentialGate K isPublic (Some c') = Deny ''invalid credential'') \<and>
   (\<not> isPublic \<longrightarrow> CredentialGate K isPublic (Some K) = Admit)"
  by (simp add: CredentialGate_def)

text \<open>At the key of the unit tests.\<close>

theorem CredentialGate_decision_witness:
  "CredentialGate ''valid-api-key-12345'' True None = Admit \<and>
   CredentialGate ''valid-api-key-12345'' True (Some ''invalid-api-key'') = Admit \<and>
   CredentialGate ''valid-api-key-12345'' False None = Deny ''credential required'' \<and>
   CredentialGate ''valid-api-key-12345'' False (Some ''invalid-api-key'')
     = Deny ''invalid credential'' \<and>
   CredentialGate ''valid-api-key-12345'' False (Some ''valid-api-key-12345'') = Admit"
  using CredentialGate_decision [of True "''valid-api-key-12345''" None "''invalid-api-key''"]
    CredentialGate_decision [of True "''valid-api-key-12345''" "Some ''invalid-api-key''"
      "''invalid-api-key''"]
    CredentialGate_decision [of False "''valid-api-key-12345''" None "''invalid-api-key''"]
  by simp

subsection \<open>IdempotencyInterceptor\<close>

lemma cleanExpiredEntries_filter:
  "cleanExpiredEntries now cache = filter (\<lambda>(k, v). now - timestamp v \<le> 86400000) cache"
  by (induction cache) (auto simp: TTL_def)

lemma map_of_cleanExpiredEntries_None:
  "map_of cache k = None \<Longrightarrow> map_of (cleanExpiredEntries now cache) k = None"
  by (induction cache) (auto split: if_splits)

lemma map_of_cleanExpiredEntries_fresh:
  "map_of cache k = Some v \<Longrightarrow> now - timestamp v \<le> 86400000 \<Longrightarrow>
   map_of (cleanExpiredEntries now cache) k = Some v"
  by (induction cache) (auto simp: TTL_def split: if_splits)

text \<open>
  C7. For a \<^verbatim>\<open>POST\<close>, \<^verbatim>\<open>PUT\<close> or \<^verbatim>\<open>PATCH\<close> request with a non-empty idempotency
  key: the cache is swept first, and when the swept cache holds an entry for the key, its
  stored response is the result, unchanged, and the rest of the pipeline does not run (the
  downstream state is as before, whatever the handler is); when it holds none, the pipeline
  runs and a response it produces is stored under the key as it is, so that a later request
  with the key, made within 24 hours of the store, gets that very response back. The sweep
  removes exactly the entries older than 24 hours. A request with another method, or with
  no key or an empty one, goes to the pipeline and leaves the cache as it was, unswept.
\<close>

theorem intercept_replay:
  "(http_method req \<in> {''POST'', ''PUT'', ''PATCH''} \<and> x_idempotency_key req = Some k \<and> k \<noteq> [] \<longrightarrow>
      (map_of (cleanExpiredEntries now cache) k = Some e \<longrightarrow>
         intercept now later req handler cache st
           = (Inr (data e), cleanExpiredEntries now cache, st)) \<and>
      (map_of (cleanExpiredEntries now cache) k = None \<longrightarrow>
         intercept now later req handler cache st
           = (case fst (handler st) of
                Inr d \<Rightarrow>
                  (Inr d,
                   AList.update k \<lparr>data = d, timestamp = later\<rparr> (cleanExpiredEntries now cache),
                   snd (handler st))
              | Inl err \<Rightarrow> (Inl err, cleanExpiredEntries now cache, snd (handler st)))) \<and>
      (map_of (cleanExpiredEntries now cache) k = None \<and> fst (handler st) = Inr d \<and>
       now' - later \<le> 24 * 60 * 60 * 1000 \<longrightarrow>
         intercept now' later' req handler' (fst (snd (intercept now later req handler cache st))) st'
           = (Inr d,
              cleanExpiredEntries now' (fst (snd (intercept now later req handler cache st))),
              st'))) \<and>
   cleanExpiredEntries now cache
     = filter (\<lambda>(k', v). now - timestamp v \<le> 24 * 60 * 60 * 1000) cache \<and>
   (http_method req \<notin> {''POST'', ''PUT'', ''PATCH''} \<or> x_idempotency_key req = None \<or>
    x_idempotency_key req = Some [] \<longrightarrow>
      intercept now later req handler cache st = (fst (handler st), cache, snd (handler st)))"
proof -
  have hit: "intercept now later req handler cache st
      = (Inr (data e), cleanExpiredEntries now cache, st)"
    if "http_method req \<in> {''POST'', ''PUT'', ''PATCH''}" "x_idempotency_key req = Some k"
      "k \<noteq> []" "map_of (cleanExpiredEntries now cache) k = Some e"
    using that by (simp add: intercept_def mutating_iff)
  have miss: "intercept now later req handler cache st
      = (case fst (handler st) of
           Inr d \<Rightarrow>
             (Inr d,
              AList.update k \<lparr>data = d, timestamp = later\<rparr> (cleanExpiredEntries now cache),
              snd (handler st))
         | Inl err \<Rightarrow> (Inl err, cleanExpiredEntries now cache, snd (handler st)))"
    if "http_method req \<in> {''POST'', ''PUT'', ''PATCH''}" "x_idempotency_key req = Some k"
      "k \<noteq> []" "map_of (cleanExpiredEntries now cache) k = None"
    using that by (simp add: intercept_def mutating_iff)
  have again: "intercept now' later' req handler'
        (fst (snd (intercept now later req handler cache st))) st'
      = (Inr d, cleanExpiredEntries now' (fst (snd (intercept now later req handler cache st))),
         st')"
    if m: "http_method req \<in> {''POST'', ''PUT'', ''PATCH''}" "x_idempotency_key req = Some k"
      "k \<noteq> []"
      and n: "map_of (cleanExpiredEntries now cache) k = None" and d: "fst (handler st) = Inr d"
      and fresh: "now' - later \<le> 24 * 60 * 60 * 1000"
  proof -
    let ?v = "\<lparr>data = d, timestamp = later\<rparr>"
    let ?c1 = "AList.update k ?v (cleanExpiredEntries now cache)"
    have c1: "fst (snd (intercept now later req handler cache st)) = ?c1"
      by (simp add: miss [OF m n] d)
    have "map_of ?c1 k = Some ?v"
      by (simp add: update_conv')
    then have "map_of (cleanExpiredEntries now' ?c1) k = Some ?v"
      using fresh by (intro map_of_cleanExpiredEntries_fresh) simp_all
    then show ?thesis
      unfolding c1 using m by (simp add: intercept_def mutating_iff)
  qed
  have bypass: "intercept now later req handler cache st
      = (fst (handler st), cache, snd (handler st))"
    if "http_method req \<notin> {''POST'', ''PUT'', ''PATCH''} \<or> x_idempotency_key req = None \<or>
      x_idempotency_key req = Some []"
    using that by (auto simp: intercept_def mutating_iff)
  have sweep: "cleanExpiredEntries now cache
      = filter (\<lambda>(k', v). now - timestamp v \<le> 24 * 60 * 60 * 1000) cache"
    by (simp add: cleanExpiredEntries_filter)
  from hit miss again bypass sweep show ?thesis
    by blast
qed

theorem intercept_replay_witness:
  "intercept 1000 1010
     \<lparr>http_method = ''POST'', x_api_key = None, x_webhook_signature = None,
      x_idempotency_key = Some ''k1'', body = ([] :: (string \<times> string) list)\<rparr>
     (\<lambda>n :: nat. (Inr ''id-1'' :: js_error + string, Suc n)) [] 0
     = (Inr ''id-1'', [(''k1'', \<lparr>data = ''id-1'', timestamp = 1010\<rparr>)], 1) \<and>
   intercept 2000 2010
     \<lparr>http_method = ''POST'', x_api_key = None, x_webhook_signature = None,
      x_idempotency_key = Some ''k1'', body = ([] :: (string \<times> string) list)\<rparr>
     (\<lambda>n :: nat. (Inr ''id-2'' :: js_error + string, Suc n))
     [(''k1'', \<lparr>data = ''id-1'', timestamp = 1010\<rparr>)] 1
     = (Inr ''id-1'', [(''k1'', \<lparr>data = ''id-1'', timestamp = 1010\<rparr>)], 1) \<and>
   intercept 86401011 86401020
     \<lparr>http_method = ''POST'', x_api_key = None, x_webhook_signature = None,
      x_idempotency_key = Some ''k1'', body = ([] :: (string \<times> string) list)\<rparr>
     (\<lambda>n :: nat. (Inr ''id-2'' :: js_error + string, Suc n))
     [(''k1'', \<lparr>data = ''id-1'', timestamp = 1010\<rparr>)] 1
     = (Inr ''id-2'', [(''k1'', \<lparr>data = ''id-2'', timestamp = 86401020\<rparr>)], 2) \<and>
   intercept 2000 2010
     \<lparr>http_method = ''GET'', x_api_key = None, x_webhook_signature = None,
      x_idempotency_key = Some ''k1'', body = ([] :: (string \<times> string) list)\<rparr>
     (\<lambda>n :: nat. (Inr ''id-2'' :: js_error + string, Suc n))
     [(''k1'', \<lparr>data = ''id-1'', timestamp = 1010\<rparr>)] 1
     = (Inr ''id-2'', [(''k1'', \<lparr>data = ''id-1'', timestamp = 1010\<rparr>)], 2)"
proof -
  let ?post = "\<lparr>http_method = ''POST'', x_api_key = None, x_webhook_signature = None,
      x_idempotency_key = Some ''k1'', body = ([] :: (string \<times> string) list)\<rparr>"
  let ?get = "\<lparr>http_method = ''GET'', x_api_key = None, x_webhook_signature = None,
      x_idempotency_key = Some ''k1'', body = ([] :: (string \<times> string) list)\<rparr>"
  let ?c1 = "[(''k1'', \<lparr>data = ''id-1'', timestamp = 1010 :: int\<rparr>)]"
  let ?h1 = "\<lambda>n :: nat. (Inr ''id-1'' :: js_error + string, Suc n)"
  let ?h2 = "\<lambda>n :: nat. (Inr ''id-2'' :: js_error + string, Suc n)"
  have a: "intercept 1000 1010 ?post ?h1 [] 0 = (Inr ''id-1'', ?c1, 1)"
    using intercept_replay [where req = ?post and k = "''k1''" and now = 1000 and cache = "[]"
        and e = "\<lparr>data = [], timestamp = 0\<rparr>" and later = 1010 and handler = ?h1 and st = 0
        and d = "''id-1''" and now' = 2000 and later' = 2010 and handler' = ?h2 and st' = 1]
    by simp
  have b: "intercept 2000 2010 ?post ?h2 ?c1 1 = (Inr ''id-1'', ?c1, 1)"
    using intercept_replay [where req = ?post and k = "''k1''" and now = 1000 and cache = "[]"
        and e = "\<lparr>data = [], timestamp = 0\<rparr>" and later = 1010 and handler = ?h1 and st = 0
        and d = "''id-1''" and now' = 2000 and later' = 2010 and handler' = ?h2 and st' = 1]
    by (simp add: a TTL_def)
  have c: "intercept 86401011 86401020 ?post ?h2 ?c1 1
      = (Inr ''id-2'', [(''k1'', \<lparr>data = ''id-2'', timestamp = 86401020\<rparr>)], 2)"
    using intercept_replay [where req = ?post and k = "''k1''" and now = 86401011
        and cache = ?c1 and e = "\<lparr>data = [], timestamp = 0\<rparr>" and later = 86401020
        and handler = ?h2 and st = 1
        and d = "[]" and now' = 0 and later' = 0 and handler' = ?h2 and st' = 0]
    by (simp add: TTL_def)
  have d: "intercept 2000 2010 ?get ?h2 ?c1 1 = (Inr ''id-2'', ?c1, 2)"
    using intercept_replay [where req = ?get and k = "''k1''" and now = 2000 and cache = ?c1
        and e = "\<lparr>data = [], timestamp = 0\<rparr>" and later = 2010 and handler = ?h2 and st = 1
        and d = "[]" and now' = 0 and later' = 0 and handler' = ?h2 and st' = 0]
    by simp
  from a b c d show ?thesis by simp
qed

text \<open>
  C10. When the pipeline of a \<^verbatim>\<open>POST\<close>, \<^verbatim>\<open>PUT\<close> or \<^verbatim>\<open>PATCH\<close> request with a
  non-empty idempotency key runs (the swept cache has no entry for the key) and ends with
  an error, the error is the result and nothing is stored under the key: the cache
  afterwards is the swept cache; a retry with the same key runs the pipeline again.
\<close>

theorem intercept_error_not_cached:
  assumes "http_method req \<in> {''POST'', ''PUT'', ''PATCH''}"
    and "x_idempotency_key req = Some k" and "k \<noteq> []"
    and "map_of (cleanExpiredEntries now cache) k = None"
    and "next st = (Inl err, st')"
  shows "intercept now later req next cache st = (Inl err, cleanExpiredEntries now cache, st') \<and>
         map_of (fst (snd (intercept now later req next cache st))) k = None \<and>
         fst (intercept now2 later2 req next2 (cleanExpiredEntries now cache) st')
           = fst (next2 st') \<and>
         snd (snd (intercept now2 later2 req next2 (cleanExpiredEntries now cache) st'))
           = snd (next2 st')"
proof -
  have first: "intercept now later req next cache st = (Inl err, cleanExpiredEntries now cache, st')"
    using assms by (simp add: intercept_def mutating_iff)
  have "map_of (cleanExpiredEntries now2 (cleanExpiredEntries now cache)) k = None"
    using assms(4) by (rule map_of_cleanExpiredEntries_None)
  then have "fst (intercept now2 later2 req next2 (cleanExpiredEntries now cache) st')
           = fst (next2 st') \<and>
         snd (snd (intercept now2 later2 req next2 (cleanExpiredEntries now cache) st'))
           = snd (next2 st')"
    using assms(1-3) by (auto simp: intercept_def mutating_iff split: sum.splits)
  with first assms(4) show ?thesis by simp
qed

text \<open>A failed delivery, then a retry that succeeds and is stored.\<close>

theorem intercept_error_not_cached_witness:
  "intercept 1000 1010
     \<lparr>http_method = ''POST'', x_api_key = None, x_webhook_signature = None,
      x_idempotency_key = Some ''k1'', body = ([] :: (string \<times> string) list)\<rparr>
     (\<lambda>n :: nat. (Inl (QueryFailedError ''down'') :: js_error + string, Suc n)) [] 0
     = (Inl (QueryFailedError ''down''), [], 1) \<and>
   intercept 2000 2010
     \<lparr>http_method = ''POST'', x_api_key = None, x_webhook_signature = None,
      x_idempotency_key = Some ''k1'', body = ([] :: (string \<times> string) list)\<rparr>
     (\<lambda>n :: nat. (Inr ''id-1'' :: js_error + string, Suc n)) [] 1
     = (Inr ''id-1'', [(''k1'', \<lparr>data = ''id-1'', timestamp = 2010\<rparr>)], 2)"
proof -
  let ?post = "\<lparr>http_method = ''POST'', x_api_key = None, x_webhook_signature = None,
      x_idempotency_key = Some ''k1'', body = ([] :: (string \<times> string) list)\<rparr>"
  let ?bad = "\<lambda>n :: nat. (Inl (QueryFailedError ''down'') :: js_error + string, Suc n)"
  let ?ok = "\<lambda>n :: nat. (Inr ''id-1'' :: js_error + string, Suc n)"
  have "intercept 1000 1010 ?post ?bad [] 0 = (Inl (QueryFailedError ''down''), [], 1) \<and>
      fst (intercept 2000 2010 ?post ?ok [] 1) = Inr ''id-1'' \<and>
      snd (snd (intercept 2000 2010 ?post ?ok [] 1)) = 2"
    using intercept_error_not_cached [of ?post "''k1''" 1000 "[]" ?bad 0
        "QueryFailedError ''down''" 1 1010 2000 2010 ?ok]
    by simp
  moreover have "fst (snd (intercept 2000 2010 ?post ?ok [] 1))
      = [(''k1'', \<lparr>data = ''id-1'', timestamp = 2010\<rparr>)]"
    by (simp add: intercept_def mutating_iff)
  ultimately show ?thesis
    by (metis prod.collapse)
qed

subsection \<open>WebhooksService: the repository\<close>

lemma find_None_iff': "(find P xs = None) = (\<forall>x\<in>set xs. \<not> P x)"
  by (induction xs) auto

lemma find_replace:
  "\<forall>x\<in>set xs. \<not> P x \<Longrightarrow> P w \<Longrightarrow> \<exists>x\<in>set xs. Q x \<Longrightarrow>
   find P (map (\<lambda>x. if Q x then w else x) xs) = Some w"
  by (induction xs) auto

lemma find_append_new:
  "\<forall>x\<in>set xs. \<not> P x \<Longrightarrow> P w \<Longrightarrow> find P (xs @ [w]) = Some w"
  by (induction xs) auto

lemma unique_violation_iff:
  "unique_violation w ws =
     (idempotencyKey w \<noteq> None \<and>
      (\<exists>b\<in>set ws. idempotencyKey b = idempotencyKey w \<and> id' b \<noteq> id' w))"
  by (simp add: unique_violation_def list_ex_iff)

lemma one_record_per_key_iff:
  "one_record_per_key ws =
     (\<forall>a\<in>set ws. \<forall>b\<in>set ws.
        idempotencyKey a \<noteq> None \<and> idempotencyKey a = idempotencyKey b \<longrightarrow> id' a = id' b)"
  by (auto simp: one_record_per_key_def list_all_iff)

lemma save_reject:
  "unique_violation w (rows r) \<Longrightarrow>
   save w r = (Inl (QueryFailedError ''UNIQUE constraint failed: webhooks.idempotencyKey''),
               r\<lparr>calls := calls r @ [Save w]\<rparr>)"
  by (simp add: save_def)

lemma save_insert:
  "\<not> unique_violation w (rows r) \<Longrightarrow> find (\<lambda>w'. id' w' = id' w) (rows r) = None \<Longrightarrow>
   save w r = (Inr w, r\<lparr>rows := rows r @ [w], calls := calls r @ [Save w]\<rparr>)"
  by (simp add: save_def)

lemma save_update:
  "\<not> unique_violation w (rows r) \<Longrightarrow> find (\<lambda>w'. id' w' = id' w) (rows r) = Some old \<Longrightarrow>
   save w r =
     (Inr (w\<lparr>receivedAt := receivedAt old\<rparr>),
      r\<lparr>rows := map (\<lambda>w'. if id' w' = id' w then w\<lparr>receivedAt := receivedAt old\<rparr> else w')
                   (rows r),
        calls := calls r @ [Save w]\<rparr>)"
  by (simp add: save_def)

lemma find_Some_in_set: "find P xs = Some x \<Longrightarrow> x \<in> set xs \<and> P x"
  by (induction xs) (auto split: if_splits)

lemma save_found_by_key:
  assumes "find (\<lambda>w'. idempotencyKey w' = Some k) (rows r) = None"
    and "idempotencyKey w = Some k"
    and "save w r = (Inr w1, r1)"
  shows "find (\<lambda>w'. idempotencyKey w' = Some k) (rows r1) = Some w1"
proof -
  have none: "\<forall>x\<in>set (rows r). idempotencyKey x \<noteq> Some k"
    using assms(1) by (simp add: find_None_iff')
  then have nv: "\<not> unique_violation w (rows r)"
    using assms(2) by (auto simp: unique_violation_iff)
  show ?thesis
  proof (cases "find (\<lambda>w'. id' w' = id' w) (rows r)")
    case None
    have "w1 = w" "r1 = r\<lparr>rows := rows r @ [w], calls := calls r @ [Save w]\<rparr>"
      using assms(3) unfolding save_insert [OF nv None] by auto
    then show ?thesis
      using none assms(2) by (simp add: find_append_new)
  next
    case (Some old)
    have w1: "w1 = w\<lparr>receivedAt := receivedAt old\<rparr>"
      and r1: "r1 = r\<lparr>rows := map (\<lambda>w'. if id' w' = id' w then w\<lparr>receivedAt := receivedAt old\<rparr> else w')
                   (rows r),
        calls := calls r @ [Save w]\<rparr>"
      using assms(3) unfolding save_update [OF nv Some] by auto
    have ex: "\<exists>x\<in>set (rows r). id' x = id' w"
      using find_Some_in_set [OF Some] by blast
    have key: "idempotencyKey (w\<lparr>receivedAt := receivedAt old\<rparr>) = Some k"
      using assms(2) by simp
    have "find (\<lambda>w'. idempotencyKey w' = Some k)
            (map (\<lambda>w'. if id' w' = id' w then w\<lparr>receivedAt := receivedAt old\<rparr> else w') (rows r))
          = Some (w\<lparr>receivedAt := receivedAt old\<rparr>)"
      using none key ex by (rule find_replace)
    then show ?thesis
      by (simp add: w1 r1)
  qed
qed

lemma one_record_per_key_extend:
  assumes old: "one_record_per_key ws"
    and nv: "\<not> unique_violation w ws"
    and sub: "set ws' \<subseteq> insert w2 (set ws)"
    and same: "idempotencyKey w2 = idempotencyKey w" "id' w2 = id' w"
  shows "one_record_per_key ws'"
  unfolding one_record_per_key_iff
proof (intro ballI impI)
  fix a b
  assume a: "a \<in> set ws'" and b: "b \<in> set ws'"
    and k: "idempotencyKey a \<noteq> None \<and> idempotencyKey a = idempotencyKey b"
  have new: "id' x = id' w" if "x \<in> set ws" "idempotencyKey x = idempotencyKey w"
      "idempotencyKey w \<noteq> None" for x
    using nv that unfolding unique_violation_iff by blast
  have inv: "id' x = id' y" if "x \<in> set ws" "y \<in> set ws" "idempotencyKey x \<noteq> None"
      "idempotencyKey x = idempotencyKey y" for x y
    using old that unfolding one_record_per_key_iff by blast
  consider "a = w2" "b = w2" | "a = w2" "b \<in> set ws" | "a \<in> set ws" "b = w2"
    | "a \<in> set ws" "b \<in> set ws"
    using a b sub by blast
  then show "id' a = id' b"
  proof cases
    case 1
    then show ?thesis by simp
  next
    case 2
    have "idempotencyKey b = idempotencyKey w" "idempotencyKey w \<noteq> None"
      using k 2 same by metis+
    then have "id' b = id' w"
      using 2 by (intro new)
    then show ?thesis
      using 2 same by simp
  next
    case 3
    have "idempotencyKey a = idempotencyKey w" "idempotencyKey w \<noteq> None"
      using k 3 same by metis+
    then have "id' a = id' w"
      using 3 by (intro new)
    then show ?thesis
      using 3 same by simp
  next
    case 4
    then show ?thesis
      using k inv by metis
  qed
qed

lemma one_record_per_key_save:
  assumes "one_record_per_key (rows r)"
  shows "one_record_per_key (rows (snd (save w r)))"
proof (cases "unique_violation w (rows r)")
  case True
  then show ?thesis
    using assms by (simp add: save_reject)
next
  case nv: False
  show ?thesis
  proof (cases "find (\<lambda>w'. id' w' = id' w) (rows r)")
    case None
    have "one_record_per_key (rows r @ [w])"
      using assms nv by (rule one_record_per_key_extend [where ?w2.0 = w]) auto
    then show ?thesis
      by (simp add: save_insert [OF nv None])
  next
    case (Some o')
    have "one_record_per_key
        (map (\<lambda>w'. if id' w' = id' w then w\<lparr>receivedAt := receivedAt o'\<rparr> else w') (rows r))"
      using assms nv
      by (rule one_record_per_key_extend [where ?w2.0 = "w\<lparr>receivedAt := receivedAt o'\<rparr>"]) auto
    then show ?thesis
      by (simp add: save_update [OF nv Some])
  qed
qed

lemma rows_create_insert:
  "rows (snd (create_insert u t dto sig key r)) = rows (snd (save (new_webhook u t dto sig key) r))"
  by (cases "save (new_webhook u t dto sig key) r";
      cases "fst (save (new_webhook u t dto sig key) r)") (simp_all add: create_insert_def)

lemma rows_create_lookup: "rows (snd (create_lookup key r)) = rows r"
  by (simp add: create_lookup_def findOneByIdempotencyKey_def split: option.splits)

lemma rows_create:
  "rows (snd (create u t dto sig key r)) = rows r \<or>
   rows (snd (create u t dto sig key r))
     = rows (snd (save (new_webhook u t dto sig key) (snd (create_lookup key r))))"
proof (cases "fst (create_lookup key r)")
  case None
  then have "create u t dto sig key r = create_insert u t dto sig key (snd (create_lookup key r))"
    by (cases "create_lookup key r") (simp add: create_def)
  then show ?thesis
    by (simp add: rows_create_insert)
next
  case (Some e)
  then have "create u t dto sig key r = (Inr (e, False), snd (create_lookup key r))"
    by (cases "create_lookup key r") (simp add: create_def)
  then show ?thesis
    by (simp add: rows_create_lookup)
qed

subsection \<open>WebhooksService: \<^verbatim>\<open>create\<close>\<close>

lemma create_result_found:
  assumes "k \<noteq> []"
    and "create u1 t1 dto1 sig1 (Some k) r0 = (Inr (w1, isNew1), r1)"
  shows "find (\<lambda>w'. idempotencyKey w' = Some k) (rows r1) = Some w1"
proof (cases "find (\<lambda>w'. idempotencyKey w' = Some k) (rows r0)")
  case (Some e)
  then show ?thesis
    using assms by (auto simp: create_def create_lookup_def findOneByIdempotencyKey_def)
next
  case None
  let ?r = "r0\<lparr>calls := calls r0 @ [FindOneByIdempotencyKey k]\<rparr>"
  let ?w = "new_webhook u1 t1 dto1 sig1 (Some k)"
  have "create_insert u1 t1 dto1 sig1 (Some k) ?r = (Inr (w1, isNew1), r1)"
    using assms None by (simp add: create_def create_lookup_def findOneByIdempotencyKey_def)
  then have "save ?w ?r = (Inr w1, r1)"
    by (cases "save ?w ?r"; cases "fst (save ?w ?r)") (simp_all add: create_insert_def)
  moreover have "idempotencyKey ?w = Some k"
    using assms(1) by (simp add: new_webhook_def or_null_def truthy_simps)
  moreover have "find (\<lambda>w'. idempotencyKey w' = Some k) (rows ?r) = None"
    using None by simp
  ultimately show ?thesis
    using save_found_by_key [of k ?r ?w w1 r1] by simp
qed

text \<open>
  C1, as the code has it. After a \<^verbatim>\<open>create\<close> call with a non-empty idempotency key
  \<open>k\<close> has returned a record \<open>w1\<close>, a second call with the same key that starts then,
  on the store as the first call left it, whatever its payload, signature, fresh
  identifier and time, returns that same record (so the same \<^verbatim>\<open>id\<close>) with
  \<^verbatim>\<open>isNew = false\<close>; the only call it makes to the repository is the lookup by key, so
  nothing is written and the rows are as they were.
\<close>

theorem create_same_key_twice:
  assumes "k \<noteq> []"
    and "create u1 t1 dto1 sig1 (Some k) r0 = (Inr (w1, isNew1), r1)"
  shows "create u2 t2 dto2 sig2 (Some k) r1
           = (Inr (w1, False), r1\<lparr>calls := calls r1 @ [FindOneByIdempotencyKey k]\<rparr>) \<and>
         rows (snd (create u2 t2 dto2 sig2 (Some k) r1)) = rows r1"
proof -
  have "find (\<lambda>w'. idempotencyKey w' = Some k) (rows r1) = Some w1"
    using assms by (rule create_result_found)
  then show ?thesis
    using assms(1) by (simp add: create_def create_lookup_def findOneByIdempotencyKey_def)
qed

text \<open>Two deliveries under \<^verbatim>\<open>k1\<close> with different events and payloads, on an empty
  store.\<close>

theorem create_same_key_twice_witness:
  "create ''id-1'' 1 \<lparr>dto_source = ''stripe'', dto_event = ''payment.completed'',
        dto_payload = [(''amount'', ''100'')]\<rparr> (Some (js ''sig-1'')) (Some ''k1'')
      \<lparr>rows = [], calls = []\<rparr>
     = (Inr (\<lparr>id' = ''id-1'', source = ''stripe'', event = ''payment.completed'',
              payload = [(''amount'', ''100'')], signature = Some (js ''sig-1''),
              idempotencyKey = Some ''k1'', receivedAt = 1, status = Pending\<rparr>, True),
        \<lparr>rows = [\<lparr>id' = ''id-1'', source = ''stripe'', event = ''payment.completed'',
              payload = [(''amount'', ''100'')], signature = Some (js ''sig-1''),
              idempotencyKey = Some ''k1'', receivedAt = 1, status = Pending\<rparr>],
         calls = [FindOneByIdempotencyKey ''k1'',
                  Save \<lparr>id' = ''id-1'', source = ''stripe'', event = ''payment.completed'',
                    payload = [(''amount'', ''100'')], signature = Some (js ''sig-1''),
                    idempotencyKey = Some ''k1'', receivedAt = 1, status = Pending\<rparr>]\<rparr>) \<and>
   fst (create ''id-2'' 2 \<lparr>dto_source = ''stripe'', dto_event = ''payment.refunded'',
        dto_payload = [(''id'', ''evt-1'')]\<rparr> None (Some ''k1'')
      \<lparr>rows = [\<lparr>id' = ''id-1'', source = ''stripe'', event = ''payment.completed'',
              payload = [(''amount'', ''100'')], signature = Some (js ''sig-1''),
              idempotencyKey = Some ''k1'', receivedAt = 1, status = Pending\<rparr>],
         calls = [FindOneByIdempotencyKey ''k1'',
                  Save \<lparr>id' = ''id-1'', source = ''stripe'', event = ''payment.completed'',
                    payload = [(''amount'', ''100'')], signature = Some (js ''sig-1''),
                    idempotencyKey = Some ''k1'', receivedAt = 1, status = Pending\<rparr>]\<rparr>)
     = Inr (\<lparr>id' = ''id-1'', source = ''stripe'', event = ''payment.completed'',
              payload = [(''amount'', ''100'')], signature = Some (js ''sig-1''),
              idempotencyKey = Some ''k1'', receivedAt = 1, status = Pending\<rparr>, False)"
proof -
  let ?w = "\<lparr>id' = ''id-1'', source = ''stripe'', event = ''payment.completed'',
              payload = [(''amount'', ''100'')], signature = Some (js ''sig-1''),
              idempotencyKey = Some ''k1'', receivedAt = 1, status = Pending\<rparr>"
  let ?r1 = "\<lparr>rows = [?w], calls = [FindOneByIdempotencyKey ''k1'', Save ?w]\<rparr>"
  have first: "create ''id-1'' 1 \<lparr>dto_source = ''stripe'', dto_event = ''payment.completed'',
        dto_payload = [(''amount'', ''100'')]\<rparr> (Some (js ''sig-1'')) (Some ''k1'')
      \<lparr>rows = [], calls = []\<rparr> = (Inr (?w, True), ?r1)"
    by (simp add: create_def create_lookup_def findOneByIdempotencyKey_def create_insert_def
        new_webhook_def save_def unique_violation_def or_null_def truthy_simps js_def)
  have "(''k1'' :: string) \<noteq> []" by simp
  from create_same_key_twice [OF this first, of "''id-2''" 2
      "\<lparr>dto_source = ''stripe'', dto_event = ''payment.refunded'', dto_payload = [(''id'', ''evt-1'')]\<rparr>" None]
  have "fst (create ''id-2'' 2 \<lparr>dto_source = ''stripe'', dto_event = ''payment.refunded'',
        dto_payload = [(''id'', ''evt-1'')]\<rparr> None (Some ''k1'') ?r1) = Inr (?w, False)"
    by simp
  with first show ?thesis by simp
qed

text \<open>
  C1 as stated fails for a pair of calls that overlap. \<^verbatim>\<open>create\<close> awaits the store
  twice, so the second call's lookup may run before the first call's insert. On an empty
  store both lookups under \<^verbatim>\<open>k1\<close> find nothing; the first call inserts its record and
  returns it with \<^verbatim>\<open>isNew = true\<close>; the second call, with another payload, goes on to
  save a record of its own, which the store rejects: it has attempted a write, and it ends
  with the store's error instead of \<^verbatim>\<open>isNew = false\<close> and the first call's record.
\<close>

theorem create_overlapping_pair_counterexample:
  "fst (create_lookup (Some ''k1'') \<lparr>rows = [], calls = []\<rparr>)
     = (None :: (string \<times> string) list Webhook option) \<and>
   fst (create_lookup (Some ''k1'') \<lparr>rows = [], calls = [FindOneByIdempotencyKey ''k1'']\<rparr>)
     = (None :: (string \<times> string) list Webhook option) \<and>
   create_insert ''id-1'' 1
      \<lparr>dto_source = ''stripe'', dto_event = ''payment.completed'',
       dto_payload = [(''amount'', ''100'')]\<rparr> None (Some ''k1'')
      \<lparr>rows = [], calls = [FindOneByIdempotencyKey ''k1'', FindOneByIdempotencyKey ''k1'']\<rparr>
     = (Inr (\<lparr>id' = ''id-1'', source = ''stripe'', event = ''payment.completed'',
              payload = [(''amount'', ''100'')], signature = None,
              idempotencyKey = Some ''k1'', receivedAt = 1, status = Pending\<rparr>, True),
        \<lparr>rows = [\<lparr>id' = ''id-1'', source = ''stripe'', event = ''payment.completed'',
              payload = [(''amount'', ''100'')], signature = None,
              idempotencyKey = Some ''k1'', receivedAt = 1, status = Pending\<rparr>],
         calls = [FindOneByIdempotencyKey ''k1'', FindOneByIdempotencyKey ''k1'',
                  Save \<lparr>id' = ''id-1'', source = ''stripe'', event = ''payment.completed'',
                    payload = [(''amount'', ''100'')], signature = None,
                    idempotencyKey = Some ''k1'', receivedAt = 1, status = Pending\<rparr>]\<rparr>) \<and>
   create_insert ''id-2'' 2
      \<lparr>dto_source = ''stripe'', dto_event = ''payment.completed'',
       dto_payload = [(''amount'', ''250'')]\<rparr> None (Some ''k1'')
      \<lparr>rows = [\<lparr>id' = ''id-1'', source = ''stripe'', event = ''payment.completed'',
              payload = [(''amount'', ''100'')], signature = None,
              idempotencyKey = Some ''k1'', receivedAt = 1, status = Pending\<rparr>],
         calls = [FindOneByIdempotencyKey ''k1'', FindOneByIdempotencyKey ''k1'',
                  Save \<lparr>id' = ''id-1'', source = ''stripe'', event = ''payment.completed'',
                    payload = [(''amount'', ''100'')], signature = None,
                    idempotencyKey = Some ''k1'', receivedAt = 1, status = Pending\<rparr>]\<rparr>
     = (Inl (QueryFailedError ''UNIQUE constraint failed: webhooks.idempotencyKey''),
        \<lparr>rows = [\<lparr>id' = ''id-1'', source = ''stripe'', event = ''payment.completed'',
              payload = [(''amount'', ''100'')], signature = None,
              idempotencyKey = Some ''k1'', receivedAt = 1, status = Pending\<rparr>],
         calls = [FindOneByIdempotencyKey ''k1'', FindOneByIdempotencyKey ''k1'',
                  Save \<lparr>id' = ''id-1'', source = ''stripe'', event = ''payment.completed'',
                    payload = [(''amount'', ''100'')], signature = None,
                    idempotencyKey = Some ''k1'', receivedAt = 1, status = Pending\<rparr>,
                  Save \<lparr>id' = ''id-2'', source = ''stripe'', event = ''payment.completed'',
                    payload = [(''amount'', ''250'')], signature = None,
                    idempotencyKey = Some ''k1'', receivedAt = 2, status = Pending\<rparr>]\<rparr>)"
  by (simp add: create_lookup_def findOneByIdempotencyKey_def create_insert_def
      new_webhook_def save_def unique_violation_def or_null_def truthy_simps)

lemma find_map_keeps:
  "find P xs = Some w \<Longrightarrow> f w = w \<Longrightarrow> \<forall>x\<in>set xs. P (f x) \<longrightarrow> P x \<Longrightarrow>
   find P (map f xs) = Some w"
  by (induction xs) (auto split: if_splits)

lemma find_append_keeps: "find P xs = Some w \<Longrightarrow> find P (xs @ ys) = Some w"
  by (induction xs) (auto split: if_splits)

lemma save_keeps_found:
  assumes found: "find (\<lambda>w'. idempotencyKey w' = Some k) (rows r) = Some w1"
    and other: "id' w \<noteq> id' w1"
  shows "find (\<lambda>w'. idempotencyKey w' = Some k) (rows (snd (save w r))) = Some w1"
proof (cases "unique_violation w (rows r)")
  case True
  then show ?thesis
    using found by (simp add: save_reject)
next
  case nv: False
  have w1: "w1 \<in> set (rows r)" "idempotencyKey w1 = Some k"
    using find_Some_in_set [OF found] by simp_all
  have notk: "idempotencyKey w \<noteq> Some k"
    using nv w1 other unfolding unique_violation_iff by force
  show ?thesis
  proof (cases "find (\<lambda>w'. id' w' = id' w) (rows r)")
    case None
    show ?thesis
      using found by (simp add: save_insert [OF nv None] find_append_keeps)
  next
    case (Some o')
    have "find (\<lambda>w'. idempotencyKey w' = Some k)
        (map (\<lambda>w'. if id' w' = id' w then w\<lparr>receivedAt := receivedAt o'\<rparr> else w') (rows r))
      = Some w1"
      using found
    proof (rule find_map_keeps)
      show "(if id' w1 = id' w then w\<lparr>receivedAt := receivedAt o'\<rparr> else w1) = w1"
        using other by simp
      show "\<forall>x\<in>set (rows r).
          idempotencyKey (if id' x = id' w then w\<lparr>receivedAt := receivedAt o'\<rparr> else x) = Some k
          \<longrightarrow> idempotencyKey x = Some k"
        using notk by simp
    qed
    then show ?thesis
      by (simp add: save_update [OF nv Some])
  qed
qed

lemma create_keeps_found:
  assumes "find (\<lambda>w'. idempotencyKey w' = Some k) (rows r) = Some w1"
    and "u \<noteq> id' w1"
  shows "find (\<lambda>w'. idempotencyKey w' = Some k) (rows (snd (create u t dto sig key r))) = Some w1"
proof -
  have "find (\<lambda>w'. idempotencyKey w' = Some k) (rows (snd (create_lookup key r))) = Some w1"
    using assms(1) by (simp add: rows_create_lookup)
  moreover have "id' (new_webhook u t dto sig key) \<noteq> id' w1"
    using assms(2) by (simp add: new_webhook_def)
  ultimately have "find (\<lambda>w'. idempotencyKey w' = Some k)
      (rows (snd (save (new_webhook u t dto sig key) (snd (create_lookup key r))))) = Some w1"
    by (rule save_keeps_found)
  then show ?thesis
    using assms(1) rows_create [of u t dto sig key r] by auto
qed

lemma creates_keep_found:
  "find (\<lambda>w'. idempotencyKey w' = Some k) (rows r) = Some w1 \<Longrightarrow>
   \<forall>c\<in>set cs. fst c \<noteq> id' w1 \<Longrightarrow>
   find (\<lambda>w'. idempotencyKey w' = Some k) (rows (creates cs r)) = Some w1"
proof (induction cs arbitrary: r)
  case Nil
  then show ?case by simp
next
  case (Cons c cs)
  obtain u t dto sig key where c: "c = (u, t, dto, sig, key)"
    by (cases c) auto
  have "find (\<lambda>w'. idempotencyKey w' = Some k) (rows (snd (create u t dto sig key r))) = Some w1"
    using Cons.prems c by (intro create_keeps_found) simp_all
  then show ?case
    using Cons.prems(2) by (simp add: c Cons.IH)
qed

text \<open>
  The same across other deliveries: once \<^verbatim>\<open>create\<close> has returned a record for a non-empty
  key, every later \<^verbatim>\<open>create\<close> with that key returns that record with
  \<^verbatim>\<open>isNew = false\<close> and writes nothing, whatever \<^verbatim>\<open>create\<close> calls ran in between, as
  long as the identifiers they drew differ from the record's.
\<close>

theorem create_same_key_later:
  assumes "k \<noteq> []"
    and "create u1 t1 dto1 sig1 (Some k) r0 = (Inr (w1, isNew1), r1)"
    and "\<forall>c\<in>set cs. fst c \<noteq> id' w1"
  shows "create u2 t2 dto2 sig2 (Some k) (creates cs r1)
           = (Inr (w1, False),
              (creates cs r1)\<lparr>calls := calls (creates cs r1) @ [FindOneByIdempotencyKey k]\<rparr>)"
proof -
  have "find (\<lambda>w'. idempotencyKey w' = Some k) (rows r1) = Some w1"
    using assms(1,2) by (rule create_result_found)
  then have "find (\<lambda>w'. idempotencyKey w' = Some k) (rows (creates cs r1)) = Some w1"
    using assms(3) by (rule creates_keep_found)
  then show ?thesis
    using assms(1) by (simp add: create_def create_lookup_def findOneByIdempotencyKey_def)
qed

text \<open>A delivery under \<^verbatim>\<open>k1\<close>, then one under \<^verbatim>\<open>k2\<close> and one without a key, then
  \<^verbatim>\<open>k1\<close> again.\<close>

theorem create_same_key_later_witness:
  "fst (create ''id-4'' 4 \<lparr>dto_source = ''stripe'', dto_event = ''payment.refunded'',
        dto_payload = [(''id'', ''evt-1'')]\<rparr> None (Some ''k1'')
      (creates
         [(''id-2'', 2, \<lparr>dto_source = ''github'', dto_event = ''push'', dto_payload = [(''id'', ''evt-1'')]\<rparr>,
           None, Some ''k2''),
          (''id-3'', 3, \<lparr>dto_source = ''github'', dto_event = ''ping'', dto_payload = [(''id'', ''evt-1'')]\<rparr>,
           None, None)]
         \<lparr>rows = [\<lparr>id' = ''id-1'', source = ''stripe'', event = ''payment.completed'',
              payload = [(''amount'', ''100'')], signature = Some (js ''sig-1''),
              idempotencyKey = Some ''k1'', receivedAt = 1, status = Pending\<rparr>],
          calls = [FindOneByIdempotencyKey ''k1'',
                  Save \<lparr>id' = ''id-1'', source = ''stripe'', event = ''payment.completed'',
                    payload = [(''amount'', ''100'')], signature = Some (js ''sig-1''),
                    idempotencyKey = Some ''k1'', receivedAt = 1, status = Pending\<rparr>]\<rparr>))
     = Inr (\<lparr>id' = ''id-1'', source = ''stripe'', event = ''payment.completed'',
              payload = [(''amount'', ''100'')], signature = Some (js ''sig-1''),
              idempotencyKey = Some ''k1'', receivedAt = 1, status = Pending\<rparr>, False)"
proof -
  let ?w = "\<lparr>id' = ''id-1'', source = ''stripe'', event = ''payment.completed'',
              payload = [(''amount'', ''100'')], signature = Some (js ''sig-1''),
              idempotencyKey = Some ''k1'', receivedAt = 1, status = Pending\<rparr>"
  let ?r1 = "\<lparr>rows = [?w], calls = [FindOneByIdempotencyKey ''k1'', Save ?w]\<rparr>"
  let ?cs = "[(''id-2'', 2 :: int,
       \<lparr>dto_source = ''github'', dto_event = ''push'', dto_payload = [(''id'', ''evt-1'')]\<rparr>,
       None :: jsstring option, Some ''k2''),
      (''id-3'', 3, \<lparr>dto_source = ''github'', dto_event = ''ping'', dto_payload = [(''id'', ''evt-1'')]\<rparr>,
       None, None)]"
  have first: "create ''id-1'' 1 \<lparr>dto_source = ''stripe'', dto_event = ''payment.completed'',
        dto_payload = [(''amount'', ''100'')]\<rparr> (Some (js ''sig-1'')) (Some ''k1'')
      \<lparr>rows = [], calls = []\<rparr> = (Inr (?w, True), ?r1)"
    by (simp add: create_def create_lookup_def findOneByIdempotencyKey_def create_insert_def
        new_webhook_def save_def unique_violation_def or_null_def truthy_simps js_def)
  have k: "(''k1'' :: string) \<noteq> []" by simp
  have fresh: "\<forall>c\<in>set ?cs. fst c \<noteq> id' ?w" by simp
  from create_same_key_later [OF k first fresh, of "''id-4''" 4
      "\<lparr>dto_source = ''stripe'', dto_event = ''payment.refunded'', dto_payload = [(''id'', ''evt-1'')]\<rparr>"
      None]
  show ?thesis by simp
qed

lemma save_result:
  assumes "save w r = (Inr w1, r1)"
  shows "w1 \<in> set (rows r1) \<and> idempotencyKey w1 = idempotencyKey w \<and> id' w1 = id' w"
proof -
  have nv: "\<not> unique_violation w (rows r)"
    using assms by (auto simp: save_def)
  show ?thesis
  proof (cases "find (\<lambda>w'. id' w' = id' w) (rows r)")
    case None
    show ?thesis
      using assms unfolding save_insert [OF nv None] by auto
  next
    case (Some old)
    have "\<exists>x\<in>set (rows r). id' x = id' w"
      using find_Some_in_set [OF Some] by blast
    then show ?thesis
      using assms unfolding save_update [OF nv Some] by (auto simp: image_iff)
  qed
qed

text \<open>
  The overlapping pair in general. When the insert of a \<^verbatim>\<open>create\<close> call with a
  non-empty key \<open>k\<close> has succeeded, the insert of another \<^verbatim>\<open>create\<close> call with the
  same key and another identifier, which is what a call goes on to when its lookup ran
  before that insert, is rejected by the store: the call has made a \<^verbatim>\<open>save\<close> call, it
  ends with the store's error, and the rows are as they were.
\<close>

theorem create_overlapping_insert_rejected:
  assumes "k \<noteq> []"
    and "create_insert u1 t1 dto1 sig1 (Some k) r = (Inr (w1, True), r1)"
    and "u2 \<noteq> u1"
  shows "create_insert u2 t2 dto2 sig2 (Some k) r1
           = (Inl (QueryFailedError ''UNIQUE constraint failed: webhooks.idempotencyKey''),
              r1\<lparr>calls := calls r1 @ [Save (new_webhook u2 t2 dto2 sig2 (Some k))]\<rparr>)"
proof -
  let ?w = "new_webhook u1 t1 dto1 sig1 (Some k)"
  let ?w2 = "new_webhook u2 t2 dto2 sig2 (Some k)"
  have "save ?w r = (Inr w1, r1)"
    using assms(2) by (cases "save ?w r"; cases "fst (save ?w r)") (simp_all add: create_insert_def)
  then have w1: "w1 \<in> set (rows r1)" "idempotencyKey w1 = idempotencyKey ?w" "id' w1 = id' ?w"
    using save_result [of ?w r w1 r1] by simp_all
  have "idempotencyKey ?w = Some k" "idempotencyKey ?w2 = Some k" "id' ?w = u1" "id' ?w2 = u2"
    using assms(1) by (simp_all add: new_webhook_def or_null_def truthy_simps)
  then have "unique_violation ?w2 (rows r1)"
    using w1 assms(3) unfolding unique_violation_iff by force
  then show ?thesis
    by (simp add: create_insert_def save_reject)
qed

text \<open>Two deliveries under \<^verbatim>\<open>k7\<close> whose lookups both ran on the empty store.\<close>

theorem create_overlapping_insert_rejected_witness:
  "create_insert ''id-b'' 8
      \<lparr>dto_source = ''github'', dto_event = ''push'', dto_payload = [(''ref'', ''main'')]\<rparr>
      None (Some ''k7'')
      (snd (create_insert ''id-a'' 7
         \<lparr>dto_source = ''github'', dto_event = ''push'', dto_payload = [(''ref'', ''main'')]\<rparr>
         None (Some ''k7'') \<lparr>rows = [], calls = []\<rparr>))
     = (Inl (QueryFailedError ''UNIQUE constraint failed: webhooks.idempotencyKey''),
        \<lparr>rows = [\<lparr>id' = ''id-a'', source = ''github'', event = ''push'',
               payload = [(''ref'', ''main'')], signature = None, idempotencyKey = Some ''k7'',
               receivedAt = 7, status = Pending\<rparr>],
         calls = [Save \<lparr>id' = ''id-a'', source = ''github'', event = ''push'',
               payload = [(''ref'', ''main'')], signature = None, idempotencyKey = Some ''k7'',
               receivedAt = 7, status = Pending\<rparr>,
             Save \<lparr>id' = ''id-b'', source = ''github'', event = ''push'',
               payload = [(''ref'', ''main'')], signature = None, idempotencyKey = Some ''k7'',
               receivedAt = 8, status = Pending\<rparr>]\<rparr>)"
proof -
  let ?dto = "\<lparr>dto_source = ''github'', dto_event = ''push'', dto_payload = [(''ref'', ''main'')]\<rparr>"
  let ?wa = "\<lparr>id' = ''id-a'', source = ''github'', event = ''push'',
               payload = [(''ref'', ''main'')], signature = None, idempotencyKey = Some ''k7'',
               receivedAt = 7, status = Pending\<rparr>"
  have first: "create_insert ''id-a'' 7 ?dto None (Some ''k7'') \<lparr>rows = [], calls = []\<rparr>
      = (Inr (?wa, True), \<lparr>rows = [?wa], calls = [Save ?wa]\<rparr>)"
    by (simp add: create_insert_def new_webhook_def save_def unique_violation_def or_null_def
        truthy_simps)
  have k: "(''k7'' :: string) \<noteq> []" and u: "''id-b'' \<noteq> ''id-a''"
    by simp_all
  from create_overlapping_insert_rejected [OF k first u, of 8 ?dto None]
  show ?thesis
    by (simp add: first new_webhook_def or_null_def truthy_simps)
qed

text \<open>
  C2, as the code has it. \<^verbatim>\<open>create\<close> has no handler around \<^verbatim>\<open>save\<close>: when the store
  rejects the insert for a duplicate idempotency key, the call ends with the store's error;
  it does not fetch the existing record and returns none. The store is then left as it was
  but for the log of the attempt, and every write \<^verbatim>\<open>create\<close> makes, also one made after
  another request has run between its lookup and its insert, keeps the invariant that two
  stored records with the same non-null idempotency key have the same \<^verbatim>\<open>id\<close>.
\<close>

theorem create_unique_violation_surfaces:
  "(unique_violation (new_webhook u t dto sig key) (rows r) \<longrightarrow>
      create_insert u t dto sig key r
        = (Inl (QueryFailedError ''UNIQUE constraint failed: webhooks.idempotencyKey''),
           r\<lparr>calls := calls r @ [Save (new_webhook u t dto sig key)]\<rparr>)) \<and>
   (one_record_per_key (rows r) \<longrightarrow>
      one_record_per_key (rows (snd (create_insert u t dto sig key r))) \<and>
      one_record_per_key (rows (snd (create u t dto sig key r))))"
proof (intro conjI impI)
  assume "unique_violation (new_webhook u t dto sig key) (rows r)"
  then show "create_insert u t dto sig key r
        = (Inl (QueryFailedError ''UNIQUE constraint failed: webhooks.idempotencyKey''),
           r\<lparr>calls := calls r @ [Save (new_webhook u t dto sig key)]\<rparr>)"
    by (simp add: create_insert_def save_reject)
next
  assume inv: "one_record_per_key (rows r)"
  then show "one_record_per_key (rows (snd (create_insert u t dto sig key r)))"
    by (simp add: rows_create_insert one_record_per_key_save)
  have "one_record_per_key (rows (snd (create_lookup key r)))"
    using inv by (simp add: rows_create_lookup)
  then have "one_record_per_key
      (rows (snd (save (new_webhook u t dto sig key) (snd (create_lookup key r)))))"
    by (rule one_record_per_key_save)
  then show "one_record_per_key (rows (snd (create u t dto sig key r)))"
    using inv rows_create [of u t dto sig key r] by auto
qed

text \<open>A store that already holds the key \<^verbatim>\<open>k1\<close>: an insert under \<^verbatim>\<open>k1\<close> is
  rejected, a \<^verbatim>\<open>create\<close> under \<^verbatim>\<open>k2\<close> keeps the invariant.\<close>

theorem create_unique_violation_surfaces_witness:
  "create_insert ''id-b'' 2 \<lparr>dto_source = ''stripe'', dto_event = ''ping'', dto_payload = [(''id'', ''evt-1'')]\<rparr>
      None (Some ''k1'')
      \<lparr>rows = [\<lparr>id' = ''id-a'', source = ''stripe'', event = ''ping'', payload = [(''id'', ''evt-1'')],
               signature = None, idempotencyKey = Some ''k1'', receivedAt = 1,
               status = Pending\<rparr>],
       calls = []\<rparr>
     = (Inl (QueryFailedError ''UNIQUE constraint failed: webhooks.idempotencyKey''),
        \<lparr>rows = [\<lparr>id' = ''id-a'', source = ''stripe'', event = ''ping'', payload = [(''id'', ''evt-1'')],
               signature = None, idempotencyKey = Some ''k1'', receivedAt = 1,
               status = Pending\<rparr>],
         calls = [Save \<lparr>id' = ''id-b'', source = ''stripe'', event = ''ping'',
               payload = [(''id'', ''evt-1'')], signature = None, idempotencyKey = Some ''k1'',
               receivedAt = 2, status = Pending\<rparr>]\<rparr>) \<and>
   one_record_per_key (rows (snd (create ''id-b'' 2
      \<lparr>dto_source = ''stripe'', dto_event = ''ping'', dto_payload = [(''id'', ''evt-1'')]\<rparr> None (Some ''k2'')
      \<lparr>rows = [\<lparr>id' = ''id-a'', source = ''stripe'', event = ''ping'', payload = [(''id'', ''evt-1'')],
               signature = None, idempotencyKey = Some ''k1'', receivedAt = 1,
               status = Pending\<rparr>],
       calls = []\<rparr>)))"
proof -
  let ?dto = "\<lparr>dto_source = ''stripe'', dto_event = ''ping'', dto_payload = [(''id'', ''evt-1'')]\<rparr>"
  let ?r = "\<lparr>rows = [\<lparr>id' = ''id-a'', source = ''stripe'', event = ''ping'', payload = [(''id'', ''evt-1'')],
               signature = None, idempotencyKey = Some ''k1'', receivedAt = 1,
               status = Pending\<rparr>],
       calls = []\<rparr>"
  have a: "unique_violation (new_webhook ''id-b'' 2 ?dto None (Some ''k1'')) (rows ?r)"
    by (simp add: unique_violation_def new_webhook_def or_null_def truthy_simps)
  have b: "one_record_per_key (rows ?r)"
    by (simp add: one_record_per_key_def)
  from create_unique_violation_surfaces [of "''id-b''" 2 ?dto None "Some ''k1''" ?r] a
  have "create_insert ''id-b'' 2 ?dto None (Some ''k1'') ?r
     = (Inl (QueryFailedError ''UNIQUE constraint failed: webhooks.idempotencyKey''),
        ?r\<lparr>calls := calls ?r @ [Save (new_webhook ''id-b'' 2 ?dto None (Some ''k1''))]\<rparr>)"
    by blast
  moreover from create_unique_violation_surfaces [of "''id-b''" 2 ?dto None "Some ''k2''" ?r] b
  have "one_record_per_key (rows (snd (create ''id-b'' 2 ?dto None (Some ''k2'') ?r)))"
    by blast
  ultimately show ?thesis
    by (simp add: new_webhook_def or_null_def truthy_simps)
qed

text \<open>
  C2 as stated fails. Two requests with the key \<^verbatim>\<open>k1\<close> on an empty store: both look
  the key up and find nothing, the first insert succeeds, the second is rejected and its
  \<^verbatim>\<open>create\<close> ends with the error instead of the first request's record and
  \<^verbatim>\<open>isNew = false\<close>.
\<close>

theorem create_concurrent_duplicate_counterexample:
  "create_lookup (Some ''k1'') \<lparr>rows = [], calls = []\<rparr>
     = (None :: (string \<times> string) list Webhook option, \<lparr>rows = [], calls = [FindOneByIdempotencyKey ''k1'']\<rparr>) \<and>
   create_lookup (Some ''k1'') \<lparr>rows = [], calls = [FindOneByIdempotencyKey ''k1'']\<rparr>
     = (None :: (string \<times> string) list Webhook option,
        \<lparr>rows = [], calls = [FindOneByIdempotencyKey ''k1'', FindOneByIdempotencyKey ''k1'']\<rparr>) \<and>
   create_insert ''id-a'' 1
      \<lparr>dto_source = ''stripe'', dto_event = ''ping'', dto_payload = [(''id'', ''evt-1'')]\<rparr> None (Some ''k1'')
      \<lparr>rows = [], calls = [FindOneByIdempotencyKey ''k1'', FindOneByIdempotencyKey ''k1'']\<rparr>
     = (Inr (\<lparr>id' = ''id-a'', source = ''stripe'', event = ''ping'', payload = [(''id'', ''evt-1'')],
              signature = None, idempotencyKey = Some ''k1'', receivedAt = 1,
              status = Pending\<rparr>, True),
        \<lparr>rows = [\<lparr>id' = ''id-a'', source = ''stripe'', event = ''ping'', payload = [(''id'', ''evt-1'')],
               signature = None, idempotencyKey = Some ''k1'', receivedAt = 1,
               status = Pending\<rparr>],
         calls = [FindOneByIdempotencyKey ''k1'', FindOneByIdempotencyKey ''k1'',
                  Save \<lparr>id' = ''id-a'', source = ''stripe'', event = ''ping'',
                    payload = [(''id'', ''evt-1'')], signature = None, idempotencyKey = Some ''k1'',
                    receivedAt = 1, status = Pending\<rparr>]\<rparr>) \<and>
   fst (create_insert ''id-b'' 2
      \<lparr>dto_source = ''stripe'', dto_event = ''ping'', dto_payload = [(''id'', ''evt-1'')]\<rparr> None (Some ''k1'')
      \<lparr>rows = [\<lparr>id' = ''id-a'', source = ''stripe'', event = ''ping'', payload = [(''id'', ''evt-1'')],
               signature = None, idempotencyKey = Some ''k1'', receivedAt = 1,
               status = Pending\<rparr>],
         calls = [FindOneByIdempotencyKey ''k1'', FindOneByIdempotencyKey ''k1'',
                  Save \<lparr>id' = ''id-a'', source = ''stripe'', event = ''ping'',
                    payload = [(''id'', ''evt-1'')], signature = None, idempotencyKey = Some ''k1'',
                    receivedAt = 1, status = Pending\<rparr>]\<rparr>)
     = Inl (QueryFailedError ''UNIQUE constraint failed: webhooks.idempotencyKey'')"
  by (simp add: create_lookup_def findOneByIdempotencyKey_def create_insert_def
      new_webhook_def save_def unique_violation_def or_null_def truthy_simps)

text \<open>
  C9. With the empty string as idempotency key \<^verbatim>\<open>create\<close> behaves as with no key: it
  makes no lookup (its only call to the repository is the \<^verbatim>\<open>save\<close>), the record it
  stores has \<^verbatim>\<open>idempotencyKey = null\<close>, and the result is that record with
  \<^verbatim>\<open>isNew = true\<close>.
\<close>

theorem create_empty_key:
  "create u t dto sig (Some []) r = create u t dto sig None r \<and>
   idempotencyKey (new_webhook u t dto sig (Some [])) = None \<and>
   (\<exists>w r'. create u t dto sig (Some []) r = (Inr (w, True), r') \<and>
      id' w = u \<and> idempotencyKey w = None \<and> w \<in> set (rows r') \<and>
      calls r' = calls r @ [Save (new_webhook u t dto sig (Some []))])"
proof -
  let ?w = "new_webhook u t dto sig (Some [])"
  have key: "idempotencyKey ?w = None" and uid: "id' ?w = u"
    by (simp_all add: new_webhook_def or_null_def truthy_simps)
  have same: "new_webhook u t dto sig None = ?w"
    by (simp add: new_webhook_def or_null_def truthy_simps)
  have nv: "\<not> unique_violation ?w (rows r)"
    using key by (simp add: unique_violation_def)
  have c: "create u t dto sig (Some []) r
      = (case save ?w r of (Inl e, r') \<Rightarrow> (Inl e, r') | (Inr saved, r') \<Rightarrow> (Inr (saved, True), r'))"
    by (simp add: create_def create_lookup_def create_insert_def)
  have "\<exists>w r'. save ?w r = (Inr w, r') \<and> id' w = u \<and> idempotencyKey w = None \<and>
      w \<in> set (rows r') \<and> calls r' = calls r @ [Save ?w]"
  proof (cases "find (\<lambda>w'. id' w' = id' ?w) (rows r)")
    case None
    show ?thesis
      unfolding save_insert [OF nv None] using key uid by simp
  next
    case (Some old)
    have "\<exists>x\<in>set (rows r). id' x = id' ?w"
      using find_Some_in_set [OF Some] by blast
    then show ?thesis
      unfolding save_update [OF nv Some] using key uid by (auto simp: image_iff)
  qed
  then have "\<exists>w r'. create u t dto sig (Some []) r = (Inr (w, True), r') \<and>
      id' w = u \<and> idempotencyKey w = None \<and> w \<in> set (rows r') \<and>
      calls r' = calls r @ [Save ?w]"
    unfolding c by auto
  moreover have "create u t dto sig (Some []) r = create u t dto sig None r"
    by (simp add: create_def create_lookup_def create_insert_def same)
  ultimately show ?thesis
    using key by blast
qed

text \<open>On an empty store.\<close>

theorem create_empty_key_witness:
  "create ''id-1'' 1 \<lparr>dto_source = ''stripe'', dto_event = ''ping'', dto_payload = [(''id'', ''evt-1'')]\<rparr>
      None (Some '''') \<lparr>rows = [], calls = []\<rparr>
     = (Inr (\<lparr>id' = ''id-1'', source = ''stripe'', event = ''ping'', payload = [(''id'', ''evt-1'')],
              signature = None, idempotencyKey = None, receivedAt = 1, status = Pending\<rparr>, True),
        \<lparr>rows = [\<lparr>id' = ''id-1'', source = ''stripe'', event = ''ping'', payload = [(''id'', ''evt-1'')],
              signature = None, idempotencyKey = None, receivedAt = 1, status = Pending\<rparr>],
         calls = [Save \<lparr>id' = ''id-1'', source = ''stripe'', event = ''ping'',
              payload = [(''id'', ''evt-1'')], signature = None, idempotencyKey = None, receivedAt = 1,
              status = Pending\<rparr>]\<rparr>)"
proof -
  have "create ''id-1'' 1 \<lparr>dto_source = ''stripe'', dto_event = ''ping'', dto_payload = [(''id'', ''evt-1'')]\<rparr>
      None (Some '''') \<lparr>rows = [], calls = []\<rparr>
    = create ''id-1'' 1 \<lparr>dto_source = ''stripe'', dto_event = ''ping'', dto_payload = [(''id'', ''evt-1'')]\<rparr>
      None None \<lparr>rows = [], calls = []\<rparr>"
    using create_empty_key [of "''id-1''" 1
        "\<lparr>dto_source = ''stripe'', dto_event = ''ping'', dto_payload = [(''id'', ''evt-1'')]\<rparr>" None
        "\<lparr>rows = [], calls = []\<rparr>"]
    by (rule conjunct1)
  then show ?thesis
    by (simp add: create_def create_lookup_def create_insert_def
        new_webhook_def save_def unique_violation_def or_null_def truthy_simps)
qed

subsection \<open>WebhooksService: \<^verbatim>\<open>findAll\<close>\<close>






end
